theory Spec2Isabelle
  imports Complex_Main
begin

section \<open>Strings\<close>

text \<open>
  A JavaScript string is a sequence of code units; the model uses \<^typ>\<open>string\<close>, whose
  characters are the code units below 256 (Latin-1). \<open>length\<close> is \<open>String.length\<close>,
  \<open>take n\<close> is \<open>substring(0, n)\<close>, and the empty string is the only falsy string.
\<close>

definition whiteSpaceChars :: string where
  \<comment> \<open>the white space and line terminators of \<open>trim()\<close> and of the class \<open>\s\<close>, below 256:
      TAB, LF, VT, FF, CR, SPACE, NBSP\<close>
  "whiteSpaceChars = [CHR 0x09, CHR 0x0A, CHR 0x0B, CHR 0x0C, CHR 0x0D, CHR 0x20, CHR 0xA0]"

definition isWhiteSpace :: "char \<Rightarrow> bool" where
  "isWhiteSpace c = (c \<in> set whiteSpaceChars)"

definition trim :: "string \<Rightarrow> string" where
  "trim s = rev (dropWhile isWhiteSpace (rev (dropWhile isWhiteSpace s)))"

definition upperChars :: string where
  \<comment> \<open>the upper-case letters below 256: \<open>A\<close> to \<open>Z\<close>, then 0xC0 to 0xDE without 0xD7\<close>
  "upperChars = ''ABCDEFGHIJKLMNOPQRSTUVWXYZ'' @
     [CHR 0xC0, CHR 0xC1, CHR 0xC2, CHR 0xC3, CHR 0xC4, CHR 0xC5, CHR 0xC6, CHR 0xC7,
      CHR 0xC8, CHR 0xC9, CHR 0xCA, CHR 0xCB, CHR 0xCC, CHR 0xCD, CHR 0xCE, CHR 0xCF,
      CHR 0xD0, CHR 0xD1, CHR 0xD2, CHR 0xD3, CHR 0xD4, CHR 0xD5, CHR 0xD6,
      CHR 0xD8, CHR 0xD9, CHR 0xDA, CHR 0xDB, CHR 0xDC, CHR 0xDD, CHR 0xDE]"

definition lowerChars :: string where
  \<comment> \<open>their lower-case forms, in the same order (each 32 above its upper-case form)\<close>
  "lowerChars = ''abcdefghijklmnopqrstuvwxyz'' @
     [CHR 0xE0, CHR 0xE1, CHR 0xE2, CHR 0xE3, CHR 0xE4, CHR 0xE5, CHR 0xE6, CHR 0xE7,
      CHR 0xE8, CHR 0xE9, CHR 0xEA, CHR 0xEB, CHR 0xEC, CHR 0xED, CHR 0xEE, CHR 0xEF,
      CHR 0xF0, CHR 0xF1, CHR 0xF2, CHR 0xF3, CHR 0xF4, CHR 0xF5, CHR 0xF6,
      CHR 0xF8, CHR 0xF9, CHR 0xFA, CHR 0xFB, CHR 0xFC, CHR 0xFD, CHR 0xFE]"

definition toLowerChar :: "char \<Rightarrow> char" where
  "toLowerChar c = (case map_of (zip upperChars lowerChars) c of Some l \<Rightarrow> l | None \<Rightarrow> c)"

definition toLowerCase :: "string \<Rightarrow> string" where
  "toLowerCase s = map toLowerChar s"

definition startsWith :: "string \<Rightarrow> string \<Rightarrow> bool" where
  "startsWith s p = (take (length p) s = p)"

definition endsWith :: "string \<Rightarrow> string \<Rightarrow> bool" where
  "endsWith s p = (length p \<le> length s \<and> drop (length s - length p) s = p)"

fun includesStr :: "string \<Rightarrow> string \<Rightarrow> bool" where
  "includesStr [] p = (p = [])"
| "includesStr (c # cs) p = (startsWith (c # cs) p \<or> includesStr cs p)"

fun join :: "string \<Rightarrow> string list \<Rightarrow> string" where
  "join sep [] = []"
| "join sep [x] = x"
| "join sep (x # y # ys) = x @ sep @ join sep (y # ys)"

section \<open>Regular expressions\<close>

text \<open>
  The source's regular expressions are written as terms of \<open>rx\<close> and run by a
  backtracking matcher that lists the possible continuations in the priority order of
  the JavaScript matcher (greedy repetition tries one more iteration first, lazy
  repetition tries to stop first, an iteration that consumes nothing is not taken).
  A matcher state is the text captured by group 1 so far and the input that remains.
  Every expression of the source whose capture is read has exactly one group; groups
  whose capture is never read are written as plain sequences. \<open>^\<close> at the head of an
  expression is the choice of \<open>rx_first\<close> (match here) over \<open>rx_search\<close> (leftmost
  match); \<open>$\<close> is \<open>Eol\<close>.
\<close>

datatype rx =
    Cls "char \<Rightarrow> bool"
  | Eps
  | Eol
  | Seq rx rx
  | Alt rx rx
  | Star rx
  | Lazy rx
  | Grp rx

type_synonym mstate = "string option \<times> string"

primrec star_greedy :: "(mstate \<Rightarrow> mstate list) \<Rightarrow> nat \<Rightarrow> mstate \<Rightarrow> mstate list" where
  "star_greedy f 0 st = [st]"
| "star_greedy f (Suc n) st =
     concat (map (star_greedy f n)
       (filter (\<lambda>st'. length (snd st') < length (snd st)) (f st))) @ [st]"

primrec star_lazy :: "(mstate \<Rightarrow> mstate list) \<Rightarrow> nat \<Rightarrow> mstate \<Rightarrow> mstate list" where
  "star_lazy f 0 st = [st]"
| "star_lazy f (Suc n) st =
     st # concat (map (star_lazy f n)
       (filter (\<lambda>st'. length (snd st') < length (snd st)) (f st)))"

primrec run :: "rx \<Rightarrow> mstate \<Rightarrow> mstate list" where
  "run (Cls p) st = (case snd st of [] \<Rightarrow> [] | c # cs \<Rightarrow> if p c then [(fst st, cs)] else [])"
| "run Eps st = [st]"
| "run Eol st = (if snd st = [] then [st] else [])"
| "run (Seq a b) st = concat (map (run b) (run a st))"
| "run (Alt a b) st = run a st @ run b st"
| "run (Star a) st = star_greedy (run a) (length (snd st)) st"
| "run (Lazy a) st = star_lazy (run a) (length (snd st)) st"
| "run (Grp a) st =
     map (\<lambda>st'. (Some (take (length (snd st) - length (snd st')) (snd st)), snd st')) (run a st)"

definition rx_first :: "rx \<Rightarrow> string \<Rightarrow> mstate option" where
  \<comment> \<open>the match that starts at the head of the input, if there is one\<close>
  "rx_first r s = (case run r (None, s) of [] \<Rightarrow> None | m # _ \<Rightarrow> Some m)"

fun rx_search :: "rx \<Rightarrow> string \<Rightarrow> mstate option" where
  \<comment> \<open>the leftmost match\<close>
  "rx_search r [] = rx_first r []"
| "rx_search r (c # cs) = (case rx_first r (c # cs) of Some m \<Rightarrow> Some m | None \<Rightarrow> rx_search r cs)"

definition rx_test :: "rx \<Rightarrow> string \<Rightarrow> bool" where
  \<comment> \<open>\<open>pattern.test(s)\<close> for a pattern without a leading \<open>^\<close>\<close>
  "rx_test r s = (rx_search r s \<noteq> None)"

definition rx_test_start :: "rx \<Rightarrow> string \<Rightarrow> bool" where
  \<comment> \<open>\<open>pattern.test(s)\<close> for a pattern with a leading \<open>^\<close>\<close>
  "rx_test_start r s = (rx_first r s \<noteq> None)"

definition group1 :: "mstate option \<Rightarrow> string option" where
  \<comment> \<open>\<open>m ? m[1] : undefined\<close> for the result \<open>m\<close> of \<open>s.match(pattern)\<close>\<close>
  "group1 m = (case m of None \<Rightarrow> None | Some st \<Rightarrow> fst st)"

function replace_all :: "rx \<Rightarrow> string \<Rightarrow> string \<Rightarrow> string" where
  \<comment> \<open>\<open>s.replace(pattern, rep)\<close> with the flag \<open>g\<close>\<close>
  "replace_all r rep [] = (case rx_first r [] of Some m \<Rightarrow> rep | None \<Rightarrow> [])"
| "replace_all r rep (c # cs) =
     (case rx_first r (c # cs) of
        None \<Rightarrow> c # replace_all r rep cs
      | Some m \<Rightarrow>
          if length (snd m) < length (c # cs) then rep @ replace_all r rep (snd m)
          else rep @ c # replace_all r rep cs)"
  by pat_completeness auto
termination
  by (relation "measure (\<lambda>(r, rep, s). length s)") auto

fun replace_first :: "rx \<Rightarrow> string \<Rightarrow> string \<Rightarrow> string" where
  \<comment> \<open>\<open>s.replace(pattern, rep)\<close> without the flag \<open>g\<close>: the leftmost match only\<close>
  "replace_first r rep [] = (case rx_first r [] of Some m \<Rightarrow> rep | None \<Rightarrow> [])"
| "replace_first r rep (c # cs) =
     (case rx_first r (c # cs) of
        None \<Rightarrow> c # replace_first r rep cs
      | Some m \<Rightarrow> rep @ snd m)"

function split_acc :: "rx \<Rightarrow> string \<Rightarrow> string \<Rightarrow> string list" where
  \<comment> \<open>\<open>s.split(pattern)\<close> for a pattern that never matches the empty string; the second
      argument is the piece collected so far, reversed\<close>
  "split_acc r cur [] = [rev cur]"
| "split_acc r cur (c # cs) =
     (case rx_first r (c # cs) of
        None \<Rightarrow> split_acc r (c # cur) cs
      | Some m \<Rightarrow>
          if length (snd m) < length (c # cs) then rev cur # split_acc r [] (snd m)
          else split_acc r (c # cur) cs)"
  by pat_completeness auto
termination
  by (relation "measure (\<lambda>(r, cur, s). length s)") auto

definition split :: "rx \<Rightarrow> string \<Rightarrow> string list" where
  "split r s = split_acc r [] s"

function match_all :: "rx \<Rightarrow> string \<Rightarrow> string list" where
  \<comment> \<open>\<open>s.match(pattern)\<close> with the flag \<open>g\<close>: the matched substrings, left to right (the
      empty list for \<open>null\<close>), for a pattern that never matches the empty string\<close>
  "match_all r [] = []"
| "match_all r (c # cs) =
     (case rx_first r (c # cs) of
        None \<Rightarrow> match_all r cs
      | Some m \<Rightarrow>
          if length (snd m) < length (c # cs)
          then take (length (c # cs) - length (snd m)) (c # cs) # match_all r (snd m)
          else match_all r cs)"
  by pat_completeness auto
termination
  by (relation "measure (\<lambda>(r, s). length s)") auto

subsection \<open>Building blocks of the source's expressions\<close>

definition otherCase :: "char \<Rightarrow> char" where
  \<comment> \<open>the other code unit below 256 that the flag \<open>i\<close> identifies with \<open>c\<close> (its upper-case
      form is the same), or \<open>c\<close> itself when there is none\<close>
  "otherCase c =
     (case map_of (zip (lowerChars @ upperChars) (upperChars @ lowerChars)) c of
        Some d \<Rightarrow> d
      | None \<Rightarrow> c)"

definition chr :: "char \<Rightarrow> rx" where
  "chr x = Cls (\<lambda>c. c = x)"

definition chr_i :: "char \<Rightarrow> rx" where
  "chr_i x = Cls (\<lambda>c. c = x \<or> c = otherCase x)"

definition notc :: "string \<Rightarrow> rx" where
  \<comment> \<open>a negated class \<open>[^...]\<close>\<close>
  "notc xs = Cls (\<lambda>c. c \<notin> set xs)"

definition oneof :: "string \<Rightarrow> rx" where
  \<comment> \<open>a class \<open>[...]\<close>\<close>
  "oneof xs = Cls (\<lambda>c. c \<in> set xs)"

definition any_char :: rx where
  \<comment> \<open>\<open>[\s\S]\<close>\<close>
  "any_char = Cls (\<lambda>c. True)"

definition dot :: rx where
  \<comment> \<open>\<open>.\<close>: any code unit but a line terminator (LF, CR)\<close>
  "dot = Cls (\<lambda>c. c \<noteq> CHR 0x0A \<and> c \<noteq> CHR 0x0D)"

definition ws :: rx where
  \<comment> \<open>\<open>\s\<close>\<close>
  "ws = Cls isWhiteSpace"

definition digit :: rx where
  \<comment> \<open>\<open>\d\<close>\<close>
  "digit = oneof ''0123456789''"

definition lit :: "string \<Rightarrow> rx" where
  "lit s = foldr (\<lambda>x r. Seq (chr x) r) s Eps"

definition lit_i :: "string \<Rightarrow> rx" where
  "lit_i s = foldr (\<lambda>x r. Seq (chr_i x) r) s Eps"

definition plus :: "rx \<Rightarrow> rx" where
  "plus r = Seq r (Star r)"

definition opt :: "rx \<Rightarrow> rx" where
  "opt r = Alt r Eps"

definition alts :: "rx list \<Rightarrow> rx" where
  \<comment> \<open>\<open>a|b|c\<close>; the list is never empty in the source\<close>
  "alts rs = foldr Alt (butlast rs) (last rs)"

definition seqs :: "rx list \<Rightarrow> rx" where
  "seqs rs = foldr Seq rs Eps"

section \<open>Data model (src/types)\<close>

datatype SemanticCategory =
  Heading | Paragraph | RichText | Label | Link | Button | Image | List | Other

text \<open>
  A value of type \<open>any\<close> or \<open>unknown\<close>. \<open>JUndefined\<close> is a missing property.
\<close>

datatype json =
    JUndefined
  | JNull
  | JBool bool
  | JNum rat
  | JStr string
  | JArr "json list"
  | JObj "(string \<times> json) list"

record ComponentMetadata =
  componentName :: string
  componentId :: string
  datasourceItemId :: "string option"
  fieldName :: string
  renderingPlaceholder :: "string option"
  params :: "(string \<times> json) list option"

record SemanticTextItem =
  item_id :: string
  item_text :: string
  item_category :: SemanticCategory
  item_metadata :: ComponentMetadata
  item_path :: "string list"

record FieldInfo =
  fi_name :: string
  fi_value :: string
  fi_type :: string
  fi_category :: SemanticCategory

datatype ComponentNode = ComponentNode
  (cn_id: string)
  (cn_name: string)
  (cn_componentName: string)
  (cn_type: string)
  (cn_datasourceId: "string option")
  (cn_placeholder: "string option")
  (cn_params: "(string \<times> json) list option")
  (cn_fields: "FieldInfo list")
  (cn_children: "ComponentNode list")
  (cn_path: "string list")

record PageContent =
  pc_itemId :: string
  pc_name :: string
  pc_language :: string
  pc_path :: string
  pc_route :: "(string \<times> (string \<times> json) list) option"  \<comment> \<open>\<open>{name, placeholders}\<close>\<close>
  pc_components :: "ComponentNode list"

definition truthyStr :: "string option \<Rightarrow> bool" where
  \<comment> \<open>an optional string used as a condition\<close>
  "truthyStr s = (case s of None \<Rightarrow> False | Some x \<Rightarrow> x \<noteq> [])"

section \<open>semanticClassifier.ts\<close>

subsection \<open>extractPlainText\<close>

definition rx_script :: rx where
  \<comment> \<open>\<open>/<script[^>]*>[\s\S]*?<\/script>/gi\<close>\<close>
  "rx_script = seqs [lit_i ''<script'', Star (notc ''>''), chr CHR ''>'', Lazy any_char,
                     lit_i ''</script>'']"

definition rx_style :: rx where
  \<comment> \<open>\<open>/<style[^>]*>[\s\S]*?<\/style>/gi\<close>\<close>
  "rx_style = seqs [lit_i ''<style'', Star (notc ''>''), chr CHR ''>'', Lazy any_char,
                    lit_i ''</style>'']"

definition rx_br :: rx where
  \<comment> \<open>\<open>/<br\s*\/?>/gi\<close>\<close>
  "rx_br = seqs [lit_i ''<br'', Star ws, opt (chr CHR ''/''), chr CHR ''>'']"

definition rx_p_close :: rx where
  \<comment> \<open>\<open>/<\/p>/gi\<close>\<close>
  "rx_p_close = lit_i ''</p>''"

definition rx_tag :: rx where
  \<comment> \<open>\<open>/<[^>]+>/g\<close>\<close>
  "rx_tag = seqs [chr CHR ''<'', plus (notc ''>''), chr CHR ''>'']"

definition extractPlainText :: "string \<Rightarrow> string" where
  "extractPlainText html =
    (if html = [] then []
     else
       let t = replace_all rx_script [] html;
           t = replace_all rx_style [] t;
           t = replace_all rx_br [CHR 0x0A] t;
           t = replace_all rx_p_close [CHR 0x0A] t;
           t = replace_all rx_tag [] t;
           t = replace_all (lit ''&nbsp;'') '' '' t;
           t = replace_all (lit ''&lt;'') ''<'' t;
           t = replace_all (lit ''&gt;'') ''>'' t;
           t = replace_all (lit ''&amp;'') ''&'' t;
           t = replace_all (lit ''&quot;'') [CHR 0x22] t;
           t = replace_all (lit ''&#39;'') [CHR 0x27] t
       in trim (replace_all (plus ws) '' '' t))"

subsection \<open>The pattern tables\<close>

datatype pattern =
    Anchored rx   \<comment> \<open>an expression with a leading \<open>^\<close>\<close>
  | Floating rx

definition test :: "pattern \<Rightarrow> string \<Rightarrow> bool" where
  \<comment> \<open>\<open>pattern.test(s)\<close>; no expression of the tables has the flag \<open>g\<close>, so a test leaves no
      state behind\<close>
  "test p s = (case p of Anchored r \<Rightarrow> rx_test_start r s | Floating r \<Rightarrow> rx_test r s)"

definition word_i :: "string list \<Rightarrow> pattern" where
  \<comment> \<open>\<open>/^(a|b|...)$/i\<close>\<close>
  "word_i names = Anchored (Seq (alts (map lit_i names)) Eol)"

definition suffix_i :: "string \<Rightarrow> pattern" where
  \<comment> \<open>\<open>/a$/i\<close>\<close>
  "suffix_i w = Floating (Seq (lit_i w) Eol)"

text \<open>
  A table \<open>Record<SemanticCategory, RegExp[]>\<close> is a function from the category to its
  expressions, together with the order of the keys of the object literal, which is the
  order in which \<open>Object.entries\<close> visits them.
\<close>

fun FIELD_PATTERNS :: "SemanticCategory \<Rightarrow> pattern list" where
  "FIELD_PATTERNS Heading =
     [Anchored (Seq (alts [lit_i ''title'', lit_i ''heading'', lit_i ''header'',
                           Seq (chr_i CHR ''h'') (oneof ''123456''),
                           lit_i ''pageTitle'', lit_i ''sectionTitle'']) Eol),
      suffix_i ''title'', suffix_i ''heading'']"
| "FIELD_PATTERNS Paragraph =
     [word_i [''text'', ''content'', ''body'', ''description'', ''paragraph'', ''copy'',
              ''summary'', ''intro''],
      suffix_i ''text'', suffix_i ''description'', suffix_i ''content'']"
| "FIELD_PATTERNS RichText =
     [word_i [''richText'', ''html'', ''markup'', ''formattedText'', ''wysiwyg'', ''editor''],
      suffix_i ''richtext'']"
| "FIELD_PATTERNS Label =
     [word_i [''label'', ''name'', ''caption'', ''tag'', ''badge'', ''category'', ''type''],
      suffix_i ''label'', suffix_i ''name'']"
| "FIELD_PATTERNS Link =
     [word_i [''link'', ''url'', ''href'', ''cta'', ''action'', ''navigation'', ''anchor''],
      Anchored (seqs [lit_i ''link'', Star digit, Eol]),
      suffix_i ''link'', suffix_i ''url'']"
| "FIELD_PATTERNS Button =
     [Anchored (Seq (alts [lit_i ''button'', lit_i ''cta'', lit_i ''action'', lit_i ''submit'',
                           seqs [lit_i ''call'', Star dot, lit_i ''action'']]) Eol),
      Anchored (seqs [lit_i ''button'', Star digit, Eol]),
      suffix_i ''button'', suffix_i ''cta'']"
| "FIELD_PATTERNS Image =
     [word_i [''image'', ''img'', ''picture'', ''photo'', ''thumbnail'', ''banner'', ''icon'',
              ''media''],
      suffix_i ''image'', suffix_i ''img'']"
| "FIELD_PATTERNS List =
     [word_i [''list'', ''items'', ''collection'', ''array'', ''menu'', ''options''],
      suffix_i ''list'', suffix_i ''items'']"
| "FIELD_PATTERNS Other = []"

definition FIELD_PATTERNS_keys :: "SemanticCategory list" where
  "FIELD_PATTERNS_keys = [Heading, Paragraph, RichText, Label, Link, Button, Image, List, Other]"

definition rx_heading_wrapper :: pattern where
  \<comment> \<open>\<open>/^<h[1-6][^>]*>.*<\/h[1-6]>$/i\<close>\<close>
  "rx_heading_wrapper =
     Anchored (seqs [chr CHR ''<'', chr_i CHR ''h'', oneof ''123456'', Star (notc ''>''),
                     chr CHR ''>'', Star dot, lit_i ''</h'', oneof ''123456'', chr CHR ''>'', Eol])"

definition rx_entity :: pattern where
  \<comment> \<open>\<open>/(&nbsp;|&lt;|&gt;|&amp;)/\<close>\<close>
  "rx_entity = Floating (alts [lit ''&nbsp;'', lit ''&lt;'', lit ''&gt;'', lit ''&amp;''])"

definition rx_cta :: pattern where
  \<comment> \<open>\<open>/^(buy|learn more|...|checkout)(\s+\[.*\])?$/i\<close>\<close>
  "rx_cta =
     Anchored (seqs [alts (map lit_i [''buy'', ''learn more'', ''read more'', ''get started'',
                                      ''sign up'', ''subscribe'', ''download'', ''shop now'',
                                      ''add to cart'', ''checkout'']),
                     opt (seqs [plus ws, chr CHR ''['', Star dot, chr CHR '']'']),
                     Eol])"

definition https_i :: rx where
  \<comment> \<open>\<open>https?:\/\/\<close> under the flag \<open>i\<close>\<close>
  "https_i = seqs [lit_i ''http'', opt (chr_i CHR ''s''), lit '':'', lit ''//'']"

definition pathChar :: rx where
  \<comment> \<open>\<open>[a-z0-9\-\/]\<close> under the flag \<open>i\<close>\<close>
  "pathChar = oneof (''abcdefghijklmnopqrstuvwxyz'' @ ''ABCDEFGHIJKLMNOPQRSTUVWXYZ'' @
                     ''0123456789'' @ ''-/'')"

fun CONTENT_PATTERNS :: "SemanticCategory \<Rightarrow> pattern list" where
  "CONTENT_PATTERNS Heading = [rx_heading_wrapper]"
| "CONTENT_PATTERNS RichText = [Floating rx_tag, rx_entity]"
| "CONTENT_PATTERNS Link =
     [Anchored https_i,
      Anchored (seqs [chr CHR ''/'', plus pathChar, Eol]),
      Floating (seqs [chr CHR ''['', https_i, plus (notc '']''), chr CHR '']'']),
      Floating (seqs [chr CHR ''['', plus (notc '']''), chr CHR '']''])]"
| "CONTENT_PATTERNS Button = [rx_cta]"
| "CONTENT_PATTERNS Image =
     [Floating (seqs [chr CHR ''.'',
                      alts (map lit_i [''jpg'', ''jpeg'', ''png'', ''gif'', ''svg'', ''webp'',
                                       ''bmp'']),
                      opt (Seq (chr CHR ''?'') (Star dot)),
                      Eol])]"
| "CONTENT_PATTERNS Paragraph = []"
| "CONTENT_PATTERNS Label = []"
| "CONTENT_PATTERNS List = []"
| "CONTENT_PATTERNS Other = []"

definition CONTENT_PATTERNS_keys :: "SemanticCategory list" where
  "CONTENT_PATTERNS_keys = [Heading, RichText, Link, Button, Image, Paragraph, Label, List, Other]"

definition matchesAny :: "pattern list \<Rightarrow> string \<Rightarrow> bool" where
  \<comment> \<open>some expression of the list accepts the string\<close>
  "matchesAny ps s = list_ex (\<lambda>p. test p s) ps"

subsection \<open>classifyFieldName and classifyContent\<close>

definition classifyFieldName :: "string \<Rightarrow> SemanticCategory" where
  "classifyFieldName fname =
    (case List.find (\<lambda>category. category \<noteq> Other \<and> matchesAny (FIELD_PATTERNS category) fname)
                    FIELD_PATTERNS_keys of
       Some category \<Rightarrow> category
     | None \<Rightarrow> Other)"

definition classifyContent :: "string \<Rightarrow> SemanticCategory option" where
  "classifyContent content =
    (if content = [] \<or> length (trim content) = 0 then None
     else if matchesAny (CONTENT_PATTERNS Button) content then Some Button
     else List.find (\<lambda>category. category \<noteq> Other \<and> category \<noteq> Paragraph \<and>
                                  category \<noteq> Label \<and> category \<noteq> Button \<and>
                                  matchesAny (CONTENT_PATTERNS category) content)
                     CONTENT_PATTERNS_keys)"

subsection \<open>classifyField\<close>

text \<open>
  \<open>TEMPLATE_PATTERNS[k]\<close> and \<open>typeMap[k]\<close> read a property of an object literal: a key of
  the literal gives its entry, any other key that names a member of \<open>Object.prototype\<close>
  gives that member (truthy, and not a category), and every other key gives \<open>undefined\<close>.
\<close>

datatype 'a property = Own 'a | Inherited | Absent

definition objectPrototypeKeys :: "string list" where
  "objectPrototypeKeys =
    [''constructor'', ''hasOwnProperty'', ''isPrototypeOf'', ''propertyIsEnumerable'',
     ''toLocaleString'', ''toString'', ''valueOf'', ''__proto__'', ''__defineGetter__'',
     ''__defineSetter__'', ''__lookupGetter__'', ''__lookupSetter__'']"

definition recordLookup :: "(string \<times> 'a) list \<Rightarrow> string \<Rightarrow> 'a property" where
  "recordLookup tbl k =
    (case map_of tbl k of
       Some v \<Rightarrow> Own v
     | None \<Rightarrow> if k \<in> set objectPrototypeKeys then Inherited else Absent)"

definition TEMPLATE_PATTERNS :: "(string \<times> SemanticCategory) list" where
  "TEMPLATE_PATTERNS =
    [(''Heading'', Heading), (''Text'', Paragraph), (''Rich Text'', RichText), (''Link'', Link),
     (''Image'', Image), (''Button'', Button), (''List'', List)]"

definition typeMap :: "(string \<times> SemanticCategory) list" where
  "typeMap =
    [(''Single-Line Text'', Label), (''Multi-Line Text'', Paragraph), (''Rich Text'', RichText),
     (''General Link'', Link), (''Image'', Image), (''Droplink'', Label), (''Droptree'', Label),
     (''Checklist'', List), (''Multilist'', List), (''Treelist'', List)]"

definition semanticCategories :: "(string \<times> SemanticCategory) list" where
  \<comment> \<open>the nine category names, each with the category it is\<close>
  "semanticCategories =
    [(''Heading'', Heading), (''Paragraph'', Paragraph), (''RichText'', RichText),
     (''Label'', Label), (''Link'', Link), (''Button'', Button), (''Image'', Image),
     (''List'', List), (''Other'', Other)]"

text \<open>
  The value that \<open>classifyField\<close> returns: a category, or a member of
  \<open>Object.prototype\<close> that a lookup has let through.
\<close>

datatype classified = Category SemanticCategory | NotACategory

definition mapFieldTypeToCategory :: "string \<Rightarrow> classified" where
  \<comment> \<open>\<open>typeMap[fieldType] || 'Other'\<close>\<close>
  "mapFieldTypeToCategory fieldType =
    (case recordLookup typeMap fieldType of
       Own c \<Rightarrow> Category c
     | Inherited \<Rightarrow> NotACategory
     | Absent \<Rightarrow> Category Other)"

definition classifyByNameAndContent :: "string \<Rightarrow> string \<Rightarrow> SemanticCategory" where
  \<comment> \<open>the part of \<open>classifyField\<close> below the template and type checks\<close>
  "classifyByNameAndContent fname fieldValue =
    (let nameCategory = classifyFieldName fname;
         contentCategory = classifyContent fieldValue
     in if nameCategory \<noteq> Other then
          (if nameCategory = Link \<or> nameCategory = Button then nameCategory
           else if contentCategory = Some RichText then RichText
           else nameCategory)
        else if contentCategory = Some Link \<or> contentCategory = Some Button
        then the contentCategory
        else
          (case contentCategory of
             Some c \<Rightarrow> c
           | None \<Rightarrow>
               if length fieldValue > 200 then Paragraph
               else if length fieldValue > 50 then Paragraph
               else Label))"

definition classifyField ::
  "string \<Rightarrow> string \<Rightarrow> string option \<Rightarrow> string option \<Rightarrow> classified" where
  "classifyField fname fieldValue fieldType templateName =
    (case (if truthyStr templateName then recordLookup TEMPLATE_PATTERNS (the templateName)
           else Absent) of
       Own c \<Rightarrow> Category c
     | Inherited \<Rightarrow> NotACategory
     | Absent \<Rightarrow>
         (if truthyStr fieldType then
            (case map_of semanticCategories (the fieldType) of
               Some c \<Rightarrow> Category c
             | None \<Rightarrow>
                 (case mapFieldTypeToCategory (the fieldType) of
                    Category Other \<Rightarrow> Category (classifyByNameAndContent fname fieldValue)
                  | typeCategory \<Rightarrow> typeCategory))
          else Category (classifyByNameAndContent fname fieldValue)))"

subsection \<open>createSemanticTextItem\<close>

definition createSemanticTextItem ::
  "FieldInfo \<Rightarrow> ComponentMetadata \<Rightarrow> string list \<Rightarrow> SemanticTextItem" where
  "createSemanticTextItem field meta p =
    (let plainText = extractPlainText (fi_value field)
     in \<lparr> item_id = componentId meta @ ''-'' @ fi_name field,
          item_text = (if plainText \<noteq> [] then plainText else fi_value field),
          item_category = fi_category field,
          item_metadata = meta,
          item_path = p \<rparr>)"

section \<open>contentParser.ts\<close>

subsection \<open>extractSemanticItems\<close>

definition fieldMetadata :: "ComponentNode \<Rightarrow> FieldInfo \<Rightarrow> ComponentMetadata" where
  \<comment> \<open>the metadata object literal built in \<open>processComponent\<close>\<close>
  "fieldMetadata component field =
     \<lparr> componentName = cn_componentName component,
       componentId = cn_id component,
       datasourceItemId = cn_datasourceId component,
       fieldName = fi_name field,
       renderingPlaceholder = cn_placeholder component,
       params = cn_params component \<rparr>"

fun processComponent :: "ComponentNode \<Rightarrow> string list \<Rightarrow> SemanticTextItem list" where
  \<comment> \<open>the items that one call of the inner function pushes, in order\<close>
  "processComponent (ComponentNode i n cname ty ds ph ps flds children pth) p =
     (let component = ComponentNode i n cname ty ds ph ps flds children pth;
          componentPath = p @ [n]
      in map (\<lambda>field. createSemanticTextItem field (fieldMetadata component field) componentPath)
           flds
         @ concat (map (\<lambda>child. processComponent child componentPath) children))"

definition extractSemanticItems :: "PageContent \<Rightarrow> SemanticTextItem list" where
  "extractSemanticItems pageContent =
     concat (map (\<lambda>component. processComponent component [pc_name pageContent])
                 (pc_components pageContent))"

subsection \<open>The ancestor chain of a component\<close>

text \<open>
  Every component of a tree paired with the list of its ancestors, outermost first, in
  document order. A root component has no ancestor; a child of \<open>c\<close> has the ancestors of
  \<open>c\<close> followed by \<open>c\<close>.
\<close>

fun nodesWithAncestors ::
  "ComponentNode list \<Rightarrow> ComponentNode \<Rightarrow> (ComponentNode list \<times> ComponentNode) list" where
  "nodesWithAncestors anc (ComponentNode i n cname ty ds ph ps flds children pth) =
     (let component = ComponentNode i n cname ty ds ph ps flds children pth
      in (anc, component) # concat (map (nodesWithAncestors (anc @ [component])) children))"

definition pageNodes :: "PageContent \<Rightarrow> (ComponentNode list \<times> ComponentNode) list" where
  "pageNodes pageContent = concat (map (nodesWithAncestors []) (pc_components pageContent))"

definition breadcrumb :: "string \<Rightarrow> ComponentNode list \<Rightarrow> ComponentNode \<Rightarrow> string list" where
  "breadcrumb pageName anc component = pageName # map cn_name anc @ [cn_name component]"

definition itemsOf :: "string \<Rightarrow> ComponentNode list \<times> ComponentNode \<Rightarrow> SemanticTextItem list" where
  "itemsOf pageName ac =
     map (\<lambda>field. createSemanticTextItem field (fieldMetadata (snd ac) field)
                    (breadcrumb pageName (fst ac) (snd ac)))
         (cn_fields (snd ac))"

section \<open>pagesContextParser.ts\<close>

subsection \<open>Values of type \<open>any\<close>\<close>

definition truthy :: "json \<Rightarrow> bool" where
  "truthy v =
    (case v of
       JUndefined \<Rightarrow> False | JNull \<Rightarrow> False | JBool b \<Rightarrow> b | JNum n \<Rightarrow> n \<noteq> 0
     | JStr s \<Rightarrow> s \<noteq> [] | JArr xs \<Rightarrow> True | JObj ps \<Rightarrow> True)"

definition orElse :: "json \<Rightarrow> json \<Rightarrow> json" where
  \<comment> \<open>\<open>a || b\<close>\<close>
  "orElse a b = (if truthy a then a else b)"

definition isObject :: "json \<Rightarrow> bool" where
  \<comment> \<open>\<open>typeof v === 'object'\<close>\<close>
  "isObject v = (case v of JObj ps \<Rightarrow> True | JArr xs \<Rightarrow> True | JNull \<Rightarrow> True | _ \<Rightarrow> False)"

definition getProp :: "json \<Rightarrow> string \<Rightarrow> json" where
  \<comment> \<open>\<open>v.k\<close> and \<open>v?.k\<close>, for the keys that the parser reads (\<open>value\<close>, \<open>type\<close>, \<open>href\<close>, \<open>url\<close>,
      \<open>text\<close>, \<open>textValue\<close>, \<open>linkText\<close>, \<open>linkUrl\<close>, \<open>title\<close>, \<open>src\<close>, \<open>alt\<close>, \<open>altText\<close>): none of
      them is a member of a built-in prototype, so only an object's own entry answers\<close>
  "getProp v k = (case v of JObj ps \<Rightarrow> (case map_of ps k of Some x \<Rightarrow> x | None \<Rightarrow> JUndefined)
                       | _ \<Rightarrow> JUndefined)"

definition hasKey :: "json \<Rightarrow> string \<Rightarrow> bool" where
  \<comment> \<open>\<open>k in v\<close>, for an object or array \<open>v\<close> and the key \<open>src\<close>\<close>
  "hasKey v k = (case v of JObj ps \<Rightarrow> map_of ps k \<noteq> None | _ \<Rightarrow> False)"

definition strOf :: "(json \<Rightarrow> string) \<Rightarrow> json \<Rightarrow> string" where
  \<comment> \<open>the conversion to a string in a template literal or in \<open>join\<close>; on a value that is
      not a string it is the platform's \<open>ToString\<close>, the parameter \<open>toStr\<close>\<close>
  "strOf toStr v = (case v of JStr s \<Rightarrow> s | _ \<Rightarrow> toStr v)"

subsection \<open>parseSitecoreLinkXML\<close>

record LinkXML =
  lx_text :: string
  lx_url :: string
  lx_title :: "string option"

definition rx_linkxml :: rx where
  \<comment> \<open>\<open>/<Link\s+([^>]+)\s*\/?>/i\<close>\<close>
  "rx_linkxml = seqs [lit_i ''<Link'', plus ws, Grp (plus (notc ''>'')), Star ws,
                      opt (chr CHR ''/''), chr CHR ''>'']"

definition rx_attr :: "string \<Rightarrow> rx" where
  \<comment> \<open>\<open>/name=["']([^"']+)["']/i\<close>\<close>
  "rx_attr name = seqs [lit_i name, chr CHR ''='', oneof [CHR 0x22, CHR 0x27],
                        Grp (plus (notc [CHR 0x22, CHR 0x27])), oneof [CHR 0x22, CHR 0x27]]"

definition parseSitecoreLinkXML :: "string \<Rightarrow> LinkXML option" where
  "parseSitecoreLinkXML xmlString =
    (if xmlString = [] then None
     else
       (case group1 (rx_search rx_linkxml xmlString) of
          None \<Rightarrow> None
        | Some attributes \<Rightarrow>
            let t = (case group1 (rx_search (rx_attr ''text'') attributes) of
                       Some g \<Rightarrow> g | None \<Rightarrow> []);
                url = (case group1 (rx_search (rx_attr ''url'') attributes) of
                         Some g \<Rightarrow> g | None \<Rightarrow> []);
                title = group1 (rx_search (rx_attr ''title'') attributes)
            in if t = [] \<and> url = [] then None
               else Some \<lparr> lx_text = t, lx_url = url, lx_title = title \<rparr>))"

subsection \<open>convertDatasourceFieldToComponentField\<close>

text \<open>
  What the function returns: \<open>null\<close>, a \<open>FieldInfo\<close>, or an object that is not a
  \<open>FieldInfo\<close> because a value of the wrong type has been let through (a \<open>type\<close> copied
  from \<open>jsonValue.type\<close> that is not a string, or a category that is a member of
  \<open>Object.prototype\<close>); or it throws a \<open>TypeError\<close>, where \<open>trim\<close> is called on a URL that
  is not a string.
\<close>

datatype converted =
    Null
  | Field FieldInfo
  | FieldNoCategory string string string   \<comment> \<open>name, value, type\<close>
  | FieldNoType string string json         \<comment> \<open>name, value, the type that is not a string\<close>
  | Throws

text \<open>The branch of the function that has produced a field's value and type.\<close>

datatype branch = ImageBranch | StringBranch | JsonBranch | ValueBranch | NoBranch

datatype parsed =
    Done converted              \<comment> \<open>an early \<open>return\<close>, or a throw\<close>
  | Parsed branch string json   \<comment> \<open>the branch, \<open>fieldValue\<close> and \<open>fieldType\<close> at the end of the
                                    parsing part\<close>

definition newField :: "string \<Rightarrow> string \<Rightarrow> string \<Rightarrow> converted" where
  \<comment> \<open>\<open>{ name, value, type, category: classifyField(name, value, type) }\<close>\<close>
  "newField name v ty =
    (case classifyField name v (Some ty) None of
       Category c \<Rightarrow> Field \<lparr> fi_name = name, fi_value = v, fi_type = ty, fi_category = c \<rparr>
     | NotACategory \<Rightarrow> FieldNoCategory name v ty)"

definition isLinkFieldByName :: "string \<Rightarrow> bool" where
  \<comment> \<open>\<open>/^link\d*$/i.test(name) || name.toLowerCase().includes('link')\<close>\<close>
  "isLinkFieldByName name =
    (rx_test_start (seqs [lit_i ''link'', Star digit, Eol]) name \<or>
     includesStr (toLowerCase name) ''link'')"

definition isDescriptionField :: "string \<Rightarrow> bool" where
  \<comment> \<open>\<open>/description|desc|text|content|body/i.test(name)\<close>\<close>
  "isDescriptionField name =
    rx_test (alts (map lit_i [''description'', ''desc'', ''text'', ''content'', ''body''])) name"

definition linkBranch :: "(json \<Rightarrow> string) \<Rightarrow> string \<Rightarrow> LinkXML option \<Rightarrow> json \<Rightarrow> converted option" where
  \<comment> \<open>the body of the link test: what it returns or throws, or \<open>None\<close> where control
      leaves it without a \<open>return\<close>\<close>
  "linkBranch toStr name parsedLinkFromValue actualValue =
    (let linkText =
           (case parsedLinkFromValue of
              Some p \<Rightarrow> JStr (lx_text p)
            | None \<Rightarrow> orElse (getProp actualValue ''text'')
                       (orElse (getProp actualValue ''textValue'')
                         (orElse (getProp actualValue ''linkText'') (JStr []))));
         linkUrl =
           (case parsedLinkFromValue of
              Some p \<Rightarrow> JStr (lx_url p)
            | None \<Rightarrow> orElse (getProp actualValue ''href'')
                       (orElse (getProp actualValue ''url'')
                         (orElse (getProp actualValue ''linkUrl'') (JStr []))));
         linkTitle =
           (case parsedLinkFromValue of
              Some p \<Rightarrow> JStr (case lx_title p of Some t \<Rightarrow> t | None \<Rightarrow> [])
            | None \<Rightarrow> orElse (getProp actualValue ''title'') (JStr []));
         parts = (if truthy linkText then [strOf toStr linkText] else []) @
                 (if truthy linkTitle then [''('' @ strOf toStr linkTitle @ '')''] else [])
     in if truthy linkUrl \<and> (case linkUrl of JStr u \<Rightarrow> False | _ \<Rightarrow> True)
        then Some Throws  \<comment> \<open>\<open>linkUrl.trim\<close> is not a function\<close>
        else
          let parts = parts @
                (if truthy linkUrl \<and> length (trim (strOf toStr linkUrl)) > 0
                 then [''['' @ strOf toStr linkUrl @ '']''] else [])
          in if truthy linkText \<or> truthy linkUrl
             then Some (newField name
                          (if length parts > 0 then join '' '' parts
                           else strOf toStr (orElse linkText linkUrl))
                          ''Link'')
             else None)"

definition imageSrcOf :: "json \<Rightarrow> json" where
  \<comment> \<open>\<open>actualValue?.src || (typeof actualValue === 'object' && actualValue !== null &&
      'src' in actualValue ? actualValue.src : null)\<close>\<close>
  "imageSrcOf actualValue =
     orElse (getProp actualValue ''src'')
       (if isObject actualValue \<and> actualValue \<noteq> JNull \<and> hasKey actualValue ''src''
        then getProp actualValue ''src'' else JNull)"

definition objectBranches ::
  "(json \<Rightarrow> string) \<Rightarrow> (json \<Rightarrow> string) \<Rightarrow> string \<Rightarrow> json \<Rightarrow> json \<Rightarrow> parsed" where
  \<comment> \<open>the image test with its two \<open>else\<close> branches, for an object \<open>jsonValue\<close>\<close>
  "objectBranches stringify toStr name jsonValue actualValue =
    (let imageSrc = imageSrcOf actualValue in
     if (truthy imageSrc \<or> includesStr (toLowerCase name) ''image'') \<and>
        \<not> isLinkFieldByName name \<and> truthy actualValue \<and> isObject actualValue
     then
       (let alt = orElse (getProp actualValue ''alt'') (orElse (getProp actualValue ''altText'') (JStr []));
            src = orElse imageSrc (JStr []);
            parts = (if truthy alt then [''Alt: '' @ strOf toStr alt] else []) @
                    (if truthy src then [''Src: '' @ strOf toStr src] else [])
        in if length parts > 0 then Parsed ImageBranch (join '' | '' parts) (JStr ''Image'')
           else if includesStr (toLowerCase name) ''image''
           then Parsed ImageBranch ''[Image field - no src]'' (JStr ''Image'')
           else Done Null)
     else
       (case actualValue of
          JStr sv \<Rightarrow> Parsed StringBranch sv (orElse (getProp jsonValue ''type'') (JStr ''Rich Text''))
        | _ \<Rightarrow> Parsed JsonBranch (stringify actualValue) (JStr ''JSON'')))"

definition valueBranch :: "string \<Rightarrow> parsed" where
  \<comment> \<open>the branch \<open>else if (value)\<close>, for a string \<open>value\<close> that is not empty\<close>
  "valueBranch v =
    (if startsWith (trim v) ''<Link'' then
       (case parseSitecoreLinkXML v of
          Some parsedLink \<Rightarrow>
            (let parts =
                   (if lx_text parsedLink \<noteq> [] then [lx_text parsedLink] else []) @
                   (if truthyStr (lx_title parsedLink)
                    then [''('' @ the (lx_title parsedLink) @ '')''] else []) @
                   (if lx_url parsedLink \<noteq> [] \<and> length (trim (lx_url parsedLink)) > 0
                    then [''['' @ lx_url parsedLink @ '']''] else [])
             in Parsed ValueBranch
                  (if length parts > 0 then join '' '' parts
                   else if lx_text parsedLink \<noteq> [] then lx_text parsedLink
                   else lx_url parsedLink)
                  (JStr ''Link''))
        | None \<Rightarrow> Parsed ValueBranch v (JStr ''Single-Line Text''))
     else Parsed ValueBranch v (JStr ''Single-Line Text''))"

definition parseField ::
  "(json \<Rightarrow> string) \<Rightarrow> (json \<Rightarrow> string) \<Rightarrow> string \<Rightarrow> string \<Rightarrow> json \<Rightarrow> parsed" where
  \<comment> \<open>the function up to the comment \<open>Convert to string if needed\<close>; \<open>stringify\<close> is the
      platform's \<open>JSON.stringify\<close>\<close>
  "parseField stringify toStr name v jsonValue =
    (if startsWith name ''__'' then Done Null
     else if v = [] \<and> \<not> truthy jsonValue then Done Null
     else
       let parsedLinkFromValue =
             (if v \<noteq> [] \<and> startsWith (trim v) ''<Link'' then parseSitecoreLinkXML v else None)
       in if truthy jsonValue \<and> isObject jsonValue then
            (let actualValue = orElse (getProp jsonValue ''value'') jsonValue in
             case (if isLinkFieldByName name \<or> getProp actualValue ''href'' \<noteq> JUndefined \<or>
                      getProp actualValue ''url'' \<noteq> JUndefined \<or> parsedLinkFromValue \<noteq> None
                   then linkBranch toStr name parsedLinkFromValue actualValue else None) of
               Some r \<Rightarrow> Done r
             | None \<Rightarrow> objectBranches stringify toStr name jsonValue actualValue)
          else if v \<noteq> [] then valueBranch v
          else Parsed NoBranch [] (JStr ''unknown''))"

definition finishField :: "string \<Rightarrow> string \<Rightarrow> json \<Rightarrow> converted" where
  \<comment> \<open>the function from the comment \<open>Skip if empty after conversion\<close> on\<close>
  "finishField name fieldValue fieldType =
    (let isEmpty = (fieldValue = [] \<or> length (trim fieldValue) = 0) in
     if isEmpty \<and> \<not> isDescriptionField name \<and> fieldType \<noteq> JStr ''Image'' \<and>
        fieldType \<noteq> JStr ''Link''
     then Null
     else
       let fieldValue' = (if isEmpty \<and> isDescriptionField name then ''[Empty]'' else fieldValue)
       in if fieldType = JStr ''Link'' \<and> isEmpty then Null
          else (case fieldType of
                  JStr ty \<Rightarrow> newField name fieldValue' ty
                | _ \<Rightarrow> FieldNoType name fieldValue' fieldType))"

definition convertDatasourceFieldToComponentField ::
  "(json \<Rightarrow> string) \<Rightarrow> (json \<Rightarrow> string) \<Rightarrow> string \<Rightarrow> string \<Rightarrow> json \<Rightarrow> converted" where
  \<comment> \<open>the field \<open>{ name, value, jsonValue }\<close>, whose \<open>name\<close> and \<open>value\<close> are strings\<close>
  "convertDatasourceFieldToComponentField stringify toStr name v jsonValue =
    (case parseField stringify toStr name v jsonValue of
       Done r \<Rightarrow> r
     | Parsed b fieldValue fieldType \<Rightarrow> finishField name fieldValue fieldType)"

section \<open>Data model (src/types/seo)\<close>

text \<open>
  A JavaScript \<open>number\<close> is modelled as a rational (no rounding error, no \<open>NaN\<close>); an
  optional property is an \<open>option\<close>. Record fields carry a prefix naming their
  interface, since several interfaces share field names.
\<close>

record PageMetadata =
  md_title :: "string option"
  md_description :: "string option"
  md_keywords :: "string list option"
  md_canonical :: "string option"
  md_robots :: "string option"

record PageHeadings =
  hd_h1 :: "string option"
  hd_h2 :: "string list option"
  hd_h3 :: "string list option"
  hd_all :: "string list"

record PageImage =
  img_id :: string
  img_alt :: "string option"
  img_src :: string
  img_componentId :: "string option"
  img_componentName :: "string option"
  img_fieldName :: "string option"
  img_path :: "string list option"

record PageLink =
  ln_text :: "string option"
  ln_href :: "string option"
  ln_isPlaceholder :: "bool option"
  ln_isBroken :: "bool option"
  ln_componentId :: "string option"
  ln_componentName :: "string option"
  ln_fieldName :: "string option"
  ln_path :: "string list option"

record ComponentContent =
  cc_componentId :: string
  cc_componentName :: string
  cc_path :: "string list"
  cc_headings :: PageHeadings
  cc_paragraphs :: "(string \<times> string) list"  \<comment> \<open>\<open>{fieldName, text}\<close>\<close>
  cc_images :: "PageImage list"
  cc_links :: "PageLink list"

record ReadabilityMetrics =
  rd_score :: rat
  rd_grade :: string
  rd_sentences :: rat
  rd_words :: rat
  rd_syllables :: rat
  rd_averageWordsPerSentence :: rat
  rd_averageSyllablesPerWord :: rat

record ContentMetrics =
  cm_wordCount :: rat
  cm_characterCount :: rat
  cm_paragraphCount :: rat
  cm_headingCount :: rat
  cm_linkCount :: rat
  cm_imageCount :: rat
  cm_readability :: "ReadabilityMetrics option"

record PageData =
  pd_metadata :: PageMetadata
  pd_headings :: PageHeadings
  pd_text :: string
  pd_images :: "PageImage list"
  pd_links :: "PageLink list"
  pd_wordCount :: "rat option"
  pd_components :: "ComponentContent list option"
  pd_metrics :: "ContentMetrics option"

record ScoreBreakdown =
  sb_metadata :: rat
  sb_content :: rat
  sb_accessibility :: rat
  sb_links :: rat

record SEOIssues =
  missingMetaDescription :: "bool option"
  missingH1 :: "bool option"
  weakAltText :: "string list option"
  placeholderLinks :: "string list option"
  brokenLinks :: "string list option"
  titleTooLong :: "bool option"
  descriptionTooLong :: "bool option"
  lowReadability :: "bool option"
  shortContent :: "bool option"
  missingImages :: "bool option"
  tooManyLinks :: "bool option"
  noInternalLinks :: "bool option"

datatype LinkReason = placeholder | invalid_url | empty | suspected_broken

record BrokenLinkInfo =
  bl_href :: string
  bl_text :: "string option"
  bl_componentId :: "string option"
  bl_componentName :: "string option"
  bl_reason :: LinkReason

record ScanResult =
  seoScore :: rat
  breakdown :: ScoreBreakdown
  issues :: SEOIssues
  pageData :: PageData
  brokenLinksDetails :: "BrokenLinkInfo list option"

subsection \<open>JavaScript idioms\<close>

definition truthyBool :: "bool option \<Rightarrow> bool" where
  "truthyBool b = (case b of None \<Rightarrow> False | Some x \<Rightarrow> x)"

definition trimOrEmpty :: "string option \<Rightarrow> string" where
  \<comment> \<open>\<open>s?.trim() || ''\<close>\<close>
  "trimOrEmpty s = (case s of None \<Rightarrow> [] | Some x \<Rightarrow> trim x)"

definition mathRound :: "rat \<Rightarrow> rat" where
  \<comment> \<open>\<open>Math.round\<close>: the nearest integer, a half rounded up\<close>
  "mathRound x = of_int \<lfloor>x + 1 / 2\<rfloor>"

definition len :: "'a list \<Rightarrow> rat" where
  \<comment> \<open>\<open>.length\<close> as a number\<close>
  "len xs = of_nat (length xs)"

section \<open>seoScanner.ts\<close>

definition fieldNameLower :: "SemanticTextItem \<Rightarrow> string" where
  \<comment> \<open>\<open>item.metadata.fieldName.toLowerCase()\<close>\<close>
  "fieldNameLower item = toLowerCase (fieldName (item_metadata item))"

subsection \<open>extractMetadata\<close>

definition titleFields :: "SemanticTextItem list \<Rightarrow> SemanticTextItem list" where
  "titleFields semanticItems =
     filter (\<lambda>item. includesStr (fieldNameLower item) ''title'' \<and>
                     (item_category item = Heading \<or> item_category item = Label))
            semanticItems"

definition descriptionFields :: "SemanticTextItem list \<Rightarrow> SemanticTextItem list" where
  "descriptionFields semanticItems =
     filter (\<lambda>item. (includesStr (fieldNameLower item) ''description'' \<or>
                      includesStr (fieldNameLower item) ''meta'' \<or>
                      includesStr (fieldNameLower item) ''summary'') \<and>
                     (item_category item = Paragraph \<or> item_category item = RichText))
            semanticItems"

definition findMeta :: "SemanticTextItem list \<Rightarrow> SemanticTextItem option" where
  \<comment> \<open>\<open>fields.find(item => item.metadata.fieldName.toLowerCase().includes('meta'))\<close>\<close>
  "findMeta fs = List.find (\<lambda>item. includesStr (fieldNameLower item) ''meta'') fs"

definition extractMetadata :: "PageContent \<Rightarrow> SemanticTextItem list \<Rightarrow> PageMetadata" where
  "extractMetadata pageContent semanticItems =
    (let tf = titleFields semanticItems;
         title =
           (case tf of
              [] \<Rightarrow> pc_name pageContent
            | first # _ \<Rightarrow>
                (case findMeta tf of
                   Some metaTitle \<Rightarrow> trim (item_text metaTitle)
                 | None \<Rightarrow> trim (item_text first)));
         df = descriptionFields semanticItems;
         description =
           (case df of
              [] \<Rightarrow> None
            | first # _ \<Rightarrow>
                (case findMeta df of
                   Some metaDesc \<Rightarrow> Some (trim (extractPlainText (item_text metaDesc)))
                 | None \<Rightarrow> Some (take 165 (trim (extractPlainText (item_text first))))))
     in \<lparr> md_title = Some title, md_description = description,
          md_keywords = None, md_canonical = None, md_robots = None \<rparr>)"

subsection \<open>extractHeadings\<close>

definition headingStep :: "PageHeadings \<Rightarrow> SemanticTextItem \<Rightarrow> PageHeadings" where
  \<comment> \<open>one pass of the loop body, on the headings collected so far\<close>
  "headingStep headings item =
    (let txt = trim (extractPlainText (item_text item)) in
     if txt = [] then headings
     else
       let fname = fieldNameLower item;
           headings' =
             (if includesStr fname ''h1'' \<or> fname = ''title'' \<or> fname = ''heading'' \<or>
                 (\<not> truthyStr (hd_h1 headings) \<and> \<not> includesStr fname ''h2'' \<and>
                  \<not> includesStr fname ''h3'')
              then (if \<not> truthyStr (hd_h1 headings) then headings\<lparr> hd_h1 := Some txt \<rparr>
                    else headings)
              else if includesStr fname ''h2'' \<or> truthyStr (hd_h1 headings)
              then headings\<lparr> hd_h2 := Some (case_option [] id (hd_h2 headings) @ [txt]) \<rparr>
              else if includesStr fname ''h3''
              then headings\<lparr> hd_h3 := Some (case_option [] id (hd_h3 headings) @ [txt]) \<rparr>
              else headings)
       in headings'\<lparr> hd_all := hd_all headings' @ [txt] \<rparr>)"

definition emptyHeadings :: PageHeadings where
  "emptyHeadings = \<lparr> hd_h1 = None, hd_h2 = Some [], hd_h3 = Some [], hd_all = [] \<rparr>"

definition extractHeadings :: "SemanticTextItem list \<Rightarrow> PageHeadings" where
  "extractHeadings semanticItems =
     foldl headingStep emptyHeadings
       (filter (\<lambda>item. item_category item = Heading) semanticItems)"

subsection \<open>extractTextContent\<close>

definition extractTextContent :: "SemanticTextItem list \<Rightarrow> string" where
  "extractTextContent semanticItems =
    (let textItems =
           filter (\<lambda>item. item_category item = Paragraph \<or> item_category item = RichText \<or>
                           (item_category item = Other \<and> length (item_text item) > 50))
                  semanticItems;
         paragraphs =
           filter (\<lambda>t. length t > 10)
                  (map (\<lambda>item. trim (extractPlainText (item_text item))) textItems)
     in join '' '' paragraphs)"

subsection \<open>extractImages\<close>

definition rx_alt :: rx where
  \<comment> \<open>\<open>/Alt:\s*([^|]+)/\<close>\<close>
  "rx_alt = seqs [lit ''Alt:'', Star ws, Grp (plus (notc ''|''))]"

definition rx_src :: rx where
  \<comment> \<open>\<open>/Src:\s*(.+)$/\<close>\<close>
  "rx_src = seqs [lit ''Src:'', Star ws, Grp (plus dot), Eol]"

definition group1Trim :: "rx \<Rightarrow> string \<Rightarrow> string" where
  \<comment> \<open>\<open>m = s.match(pattern); m ? m[1].trim() : ''\<close>, pattern without a leading \<open>^\<close>\<close>
  "group1Trim r s = (case group1 (rx_search r s) of None \<Rightarrow> [] | Some g \<Rightarrow> trim g)"

definition imageOf :: "SemanticTextItem \<Rightarrow> PageImage option" where
  \<comment> \<open>the image pushed for one Image item, if its \<open>src\<close> is not empty\<close>
  "imageOf item =
    (let alt = group1Trim rx_alt (item_text item);
         src = group1Trim rx_src (item_text item)
     in if src \<noteq> []
        then Some \<lparr> img_id = item_id item, img_alt = Some alt, img_src = src,
                    img_componentId = Some (componentId (item_metadata item)),
                    img_componentName = Some (componentName (item_metadata item)),
                    img_fieldName = Some (fieldName (item_metadata item)),
                    img_path = Some (item_path item) \<rparr>
        else None)"

definition extractImages :: "SemanticTextItem list \<Rightarrow> PageImage list" where
  "extractImages semanticItems =
     List.map_filter imageOf (filter (\<lambda>item. item_category item = Image) semanticItems)"

subsection \<open>extractLinks and detectBrokenLink\<close>

definition rx_url :: rx where
  \<comment> \<open>\<open>/\[([^\]]+)\]$/\<close>\<close>
  "rx_url = seqs [chr CHR ''['', Grp (plus (notc '']'')), chr CHR '']'', Eol]"

definition rx_linktext :: rx where
  \<comment> \<open>\<open>/^([^\[(]+)/\<close>, matched at the head of the input\<close>
  "rx_linktext = Grp (plus (notc ''[(''))"

definition linkHref :: "string \<Rightarrow> string" where
  \<comment> \<open>\<open>urlMatch ? urlMatch[1].trim() : ''\<close>\<close>
  "linkHref s = group1Trim rx_url s"

definition linkText :: "string \<Rightarrow> string" where
  \<comment> \<open>\<open>textMatch ? textMatch[1].trim() : ''\<close>\<close>
  "linkText s = (case group1 (rx_first rx_linktext s) of None \<Rightarrow> [] | Some g \<Rightarrow> trim g)"

text \<open>
  \<open>new URL(href)\<close> belongs to the platform; whether it accepts a string is the parameter
  \<open>validURL\<close> of everything that reaches \<open>detectBrokenLink\<close>.
\<close>

definition detectBrokenLink :: "(string \<Rightarrow> bool) \<Rightarrow> string \<Rightarrow> bool" where
  "detectBrokenLink validURL href =
    (if href = [] \<or> trim href = [] then True
     else if href = ''http://#'' \<or> href = ''#'' \<or> startsWith href ''http://#'' then True
     else if includesStr href ''javascript:void(0)'' \<or> includesStr href ''javascript:;'' then True
     else if startsWith href ''/'' \<or> startsWith href ''./'' \<or> startsWith href ''../'' then False
     else if validURL href then False
     else includesStr href '' '' \<or> includesStr href [CHR 0x0A] \<or> includesStr href [CHR 0x09])"

definition linkOf :: "(string \<Rightarrow> bool) \<Rightarrow> SemanticTextItem \<Rightarrow> PageLink option" where
  \<comment> \<open>the link pushed for one Link item, if its \<open>href\<close> is not empty\<close>
  "linkOf validURL item =
    (let href = linkHref (item_text item);
         txt = linkText (item_text item)
     in if href \<noteq> []
        then Some \<lparr> ln_text = Some txt, ln_href = Some href,
                    ln_isPlaceholder =
                      Some (href = ''http://#'' \<or> href = ''#'' \<or> startsWith href ''http://#'' \<or>
                            length (trim href) = 0),
                    ln_isBroken = Some (detectBrokenLink validURL href),
                    ln_componentId = Some (componentId (item_metadata item)),
                    ln_componentName = Some (componentName (item_metadata item)),
                    ln_fieldName = Some (fieldName (item_metadata item)),
                    ln_path = Some (item_path item) \<rparr>
        else None)"

definition extractLinks :: "(string \<Rightarrow> bool) \<Rightarrow> SemanticTextItem list \<Rightarrow> PageLink list" where
  "extractLinks validURL semanticItems =
     List.map_filter (linkOf validURL) (filter (\<lambda>item. item_category item = Link) semanticItems)"

subsection \<open>countWords (scanner)\<close>

definition scanner_countWords :: "string \<Rightarrow> rat" where
  "scanner_countWords t =
    (if t = [] \<or> length (trim t) = 0 then 0
     else len (filter (\<lambda>w. length w > 0) (split (plus ws) (trim t))))"

subsection \<open>extractComponentContent\<close>

definition newComponent :: "SemanticTextItem \<Rightarrow> ComponentContent" where
  \<comment> \<open>the entry stored in the map at the first item of a component\<close>
  "newComponent item =
     \<lparr> cc_componentId = componentId (item_metadata item),
       cc_componentName = componentName (item_metadata item),
       cc_path = item_path item,
       cc_headings = \<lparr> hd_h1 = None, hd_h2 = None, hd_h3 = None, hd_all = [] \<rparr>,
       cc_paragraphs = [], cc_images = [], cc_links = [] \<rparr>"

definition componentHeading :: "PageHeadings \<Rightarrow> string \<Rightarrow> string \<Rightarrow> PageHeadings" where
  \<comment> \<open>a heading text \<open>txt\<close> of a field named \<open>fname\<close> (lower case), added to a component\<close>
  "componentHeading headings fname txt =
    (let h = headings\<lparr> hd_all := hd_all headings @ [txt] \<rparr> in
     if includesStr fname ''h1'' \<or> fname = ''title'' \<or> fname = ''heading''
     then (if \<not> truthyStr (hd_h1 h) then h\<lparr> hd_h1 := Some txt \<rparr> else h)
     else if includesStr fname ''h2''
     then h\<lparr> hd_h2 := Some (case_option [] id (hd_h2 h) @ [txt]) \<rparr>
     else if includesStr fname ''h3''
     then h\<lparr> hd_h3 := Some (case_option [] id (hd_h3 h) @ [txt]) \<rparr>
     else h)"

definition componentLinkOf :: "SemanticTextItem \<Rightarrow> PageLink option" where
  "componentLinkOf item =
    (let href = linkHref (item_text item);
         txt = linkText (item_text item)
     in if href \<noteq> []
        then Some \<lparr> ln_text = Some txt, ln_href = Some href,
                    ln_isPlaceholder = Some (href = ''http://#'' \<or> href = ''#''),
                    ln_isBroken = None,
                    ln_componentId = Some (componentId (item_metadata item)),
                    ln_componentName = Some (componentName (item_metadata item)),
                    ln_fieldName = Some (fieldName (item_metadata item)),
                    ln_path = Some (item_path item) \<rparr>
        else None)"

definition componentItem :: "ComponentContent \<Rightarrow> SemanticTextItem \<Rightarrow> ComponentContent" where
  \<comment> \<open>the item filed into its component's entry, by category\<close>
  "componentItem component item =
    (if item_category item = Heading then
       (let txt = trim (extractPlainText (item_text item)) in
        if txt \<noteq> []
        then component\<lparr> cc_headings :=
               componentHeading (cc_headings component) (fieldNameLower item) txt \<rparr>
        else component)
     else if item_category item = Paragraph \<or> item_category item = RichText then
       (let txt = trim (extractPlainText (item_text item)) in
        if length txt > 10
        then component\<lparr> cc_paragraphs :=
               cc_paragraphs component @ [(fieldName (item_metadata item), txt)] \<rparr>
        else component)
     else if item_category item = Image then
       (case imageOf item of
          Some img \<Rightarrow> component\<lparr> cc_images := cc_images component @ [img] \<rparr>
        | None \<Rightarrow> component)
     else if item_category item = Link then
       (case componentLinkOf item of
          Some l \<Rightarrow> component\<lparr> cc_links := cc_links component @ [l] \<rparr>
        | None \<Rightarrow> component)
     else component)"

definition componentStep :: "ComponentContent list \<Rightarrow> SemanticTextItem \<Rightarrow> ComponentContent list" where
  \<comment> \<open>the map, as the list of its values in insertion order, after one item\<close>
  "componentStep m item =
    (let cid = componentId (item_metadata item);
         m' = (if list_ex (\<lambda>c. cc_componentId c = cid) m then m else m @ [newComponent item])
     in map (\<lambda>c. if cc_componentId c = cid then componentItem c item else c) m')"

definition extractComponentContent :: "SemanticTextItem list \<Rightarrow> ComponentContent list" where
  "extractComponentContent semanticItems = foldl componentStep [] semanticItems"

subsection \<open>calculateReadability\<close>

definition countSyllables :: "string \<Rightarrow> rat" where
  "countSyllables w =
    (let lowerWord = trim (toLowerCase w) in
     if length lowerWord \<le> 3 then 1
     else
       let modified = replace_first (Seq (chr CHR ''e'') Eol) [] lowerWord;
           vowelGroups = match_all (plus (oneof ''aeiouy'')) modified
       in if vowelGroups = [] then 1
          else
            let syllables = len vowelGroups;
                syllables = (if endsWith lowerWord ''le'' \<and> length lowerWord > 2
                             then syllables + 1 else syllables)
            in max 1 syllables)"

definition getReadabilityGrade :: "rat \<Rightarrow> string" where
  "getReadabilityGrade score =
    (if score \<ge> 90 then ''5th grade''
     else if score \<ge> 80 then ''6th grade''
     else if score \<ge> 70 then ''7th grade''
     else if score \<ge> 60 then ''8th-9th grade''
     else if score \<ge> 50 then ''10th-12th grade''
     else if score \<ge> 30 then ''College''
     else ''College graduate'')"

definition calculateReadability :: "string \<Rightarrow> string list \<Rightarrow> string list \<Rightarrow> ReadabilityMetrics" where
  "calculateReadability t words sentences =
    (if length words = 0 \<or> length sentences = 0
     then \<lparr> rd_score = 0, rd_grade = ''N/A'', rd_sentences = 0, rd_words = 0,
            rd_syllables = 0, rd_averageWordsPerSentence = 0,
            rd_averageSyllablesPerWord = 0 \<rparr>
     else
       let totalSyllables = sum_list (map countSyllables words);
           averageWordsPerSentence = len words / len sentences;
           averageSyllablesPerWord = totalSyllables / len words;
           score = mathRound (206835 / 1000 - (1015 / 1000) * averageWordsPerSentence
                               - (846 / 10) * averageSyllablesPerWord);
           clampedScore = max 0 (min 100 score);
           grade = getReadabilityGrade clampedScore
       in \<lparr> rd_score = clampedScore, rd_grade = grade,
            rd_sentences = len sentences, rd_words = len words,
            rd_syllables = totalSyllables,
            rd_averageWordsPerSentence = mathRound (averageWordsPerSentence * 10) / 10,
            rd_averageSyllablesPerWord = mathRound (averageSyllablesPerWord * 100) / 100 \<rparr>)"

subsection \<open>calculateContentMetrics\<close>

definition calculateContentMetrics ::
  "string \<Rightarrow> PageHeadings \<Rightarrow> PageLink list \<Rightarrow> PageImage list \<Rightarrow> ContentMetrics" where
  "calculateContentMetrics t headings links images =
    (let cleanText = trim (replace_all rx_tag '' '' t);
         words = filter (\<lambda>w. length w > 0) (split (plus ws) cleanText);
         sentences = filter (\<lambda>s. length (trim s) > 0) (split (plus (oneof ''.!?'')) cleanText);
         paragraphs = filter (\<lambda>p. length (trim p) > 0)
                        (split (seqs [chr (CHR 0x0A), Star ws, chr (CHR 0x0A)]) cleanText)
     in \<lparr> cm_wordCount = len words,
          cm_characterCount = len cleanText,
          cm_paragraphCount = len paragraphs,
          cm_headingCount = len (hd_all headings),
          cm_linkCount = len links,
          cm_imageCount = len images,
          cm_readability = Some (calculateReadability cleanText words sentences) \<rparr>)"

subsection \<open>scanPageContent\<close>

definition scanPageContent ::
  "(string \<Rightarrow> bool) \<Rightarrow> PageContent \<Rightarrow> SemanticTextItem list \<Rightarrow> PageData" where
  "scanPageContent validURL pageContent semanticItems =
    (let metadata = extractMetadata pageContent semanticItems;
         headings = extractHeadings semanticItems;
         t = extractTextContent semanticItems;
         images = extractImages semanticItems;
         links = extractLinks validURL semanticItems;
         wordCount = scanner_countWords t;
         components = extractComponentContent semanticItems;
         metrics = calculateContentMetrics t headings links images
     in \<lparr> pd_metadata = metadata, pd_headings = headings, pd_text = t,
          pd_images = images, pd_links = links, pd_wordCount = Some wordCount,
          pd_components = Some components, pd_metrics = Some metrics \<rparr>)"

section \<open>seoScorer.ts\<close>

definition scoreMetadata :: "PageMetadata \<Rightarrow> rat" where
  "scoreMetadata metadata =
    (let title = trimOrEmpty (md_title metadata);
         description = trimOrEmpty (md_description metadata);
         score = 0;
         score = (if len title > 0
                  then (if len title \<le> 60 then score + 10
                        else score + max 0 (10 - (len title - 60) * (1 / 10)))
                  else score);
         score = (if len description > 0
                  then (if len description \<le> 165 then score + 10
                        else score + max 0 (10 - (len description - 165) * (1 / 10)))
                  else score);
         score = (if len title > 0 \<and> len description > 0 then score + 5 else score)
     in min 25 (mathRound score))"

definition scorer_countWords :: "string \<Rightarrow> rat" where
  "scorer_countWords t =
    (if t = [] \<or> length (trim t) = 0 then 0
     else
       let textOnly = replace_all rx_tag '' '' t
       in len (filter (\<lambda>w. length w > 0) (split (plus ws) (trim textOnly))))"

definition numberOr :: "rat option \<Rightarrow> rat \<Rightarrow> rat" where
  \<comment> \<open>\<open>n || d\<close> for an optional number \<open>n\<close>\<close>
  "numberOr n d = (case n of None \<Rightarrow> d | Some x \<Rightarrow> if x = 0 then d else x)"

definition scoreContent :: "PageHeadings \<Rightarrow> string \<Rightarrow> rat option \<Rightarrow> rat" where
  "scoreContent headings t wordCount =
    (let score = 0;
         score = (if truthyStr (hd_h1 headings) \<and> length (trimOrEmpty (hd_h1 headings)) > 0
                  then score + 15 else score);
         words = numberOr wordCount (scorer_countWords t);
         score = (if words \<ge> 250 then score + 10
                  else if words > 0 then score + mathRound ((words / 250) * 10)
                  else score)
     in min 25 (mathRound score))"

definition scoreAccessibility :: "PageImage list \<Rightarrow> rat" where
  "scoreAccessibility images =
    (if length images = 0 then 25
     else
       let imagesWithAlt =
             len (filter (\<lambda>img. truthyStr (img_alt img) \<and> length (trimOrEmpty (img_alt img)) \<ge> 5)
                         images);
           percentage = imagesWithAlt / len images
       in mathRound (percentage * 25))"

definition validLink :: "PageLink \<Rightarrow> bool" where
  \<comment> \<open>the filter of \<open>scoreLinks\<close>\<close>
  "validLink link =
    (truthyStr (ln_href link) \<and> length (trimOrEmpty (ln_href link)) > 0 \<and>
     \<not> truthyBool (ln_isPlaceholder link) \<and> \<not> truthyBool (ln_isBroken link) \<and>
     ln_href link \<noteq> Some ''http://#'' \<and> ln_href link \<noteq> Some ''#'')"

definition scoreLinks :: "PageLink list \<Rightarrow> rat" where
  "scoreLinks links =
    (if length links = 0 then 25
     else
       let validLinks = len (filter validLink links);
           percentage = validLinks / len links
       in mathRound (percentage * 25))"

subsection \<open>identifyIssues\<close>

definition linkDetail :: "PageLink \<Rightarrow> BrokenLinkInfo option" where
  \<comment> \<open>the record that the loop over the links pushes for one link, if any; its reason
      names the branch taken\<close>
  "linkDetail link =
    (let info = (\<lambda>h r. \<lparr> bl_href = h, bl_text = ln_text link,
                          bl_componentId = ln_componentId link,
                          bl_componentName = ln_componentName link, bl_reason = r \<rparr>)
     in if \<not> truthyStr (ln_href link) \<or> length (trimOrEmpty (ln_href link)) = 0
        then Some (info (if truthyStr (ln_href link) then the (ln_href link) else ''empty'') empty)
        else if truthyBool (ln_isPlaceholder link) \<or> ln_href link = Some ''http://#'' \<or>
                ln_href link = Some ''#''
        then Some (info (the (ln_href link)) placeholder)
        else if truthyBool (ln_isBroken link)
        then Some (info (the (ln_href link)) suspected_broken)
        else None)"

definition flag :: "bool \<Rightarrow> bool option" where
  \<comment> \<open>an issue that is set to \<open>true\<close> or left undefined\<close>
  "flag b = (if b then Some True else None)"

definition nonEmptyList :: "'a list \<Rightarrow> 'a list option" where
  \<comment> \<open>an issue list that is set only when it has an element\<close>
  "nonEmptyList xs = (if length xs > 0 then Some xs else None)"

definition identifyIssues :: "PageData \<Rightarrow> SEOIssues \<times> BrokenLinkInfo list" where
  "identifyIssues pd =
    (let title = trimOrEmpty (md_title (pd_metadata pd));
         description = trimOrEmpty (md_description (pd_metadata pd));
         wordCount = numberOr (pd_wordCount pd) (scorer_countWords (pd_text pd));
         weakAltImages =
           map img_id (filter (\<lambda>img. \<not> truthyStr (img_alt img) \<or>
                                       length (trimOrEmpty (img_alt img)) < 5) (pd_images pd));
         details = List.map_filter linkDetail (pd_links pd);
         brokenL = map bl_href (filter (\<lambda>d. bl_reason d = empty \<or> bl_reason d = suspected_broken)
                                        details);
         placeholderL = map bl_href (filter (\<lambda>d. bl_reason d = placeholder) details);
         hasInternalLinks =
           list_ex (\<lambda>link. truthyStr (ln_href link) \<and> \<not> truthyBool (ln_isPlaceholder link) \<and>
                           \<not> truthyBool (ln_isBroken link) \<and>
                           (startsWith (the (ln_href link)) ''/'' \<or>
                            startsWith (the (ln_href link)) ''./'' \<or>
                            startsWith (the (ln_href link)) ''../''))
                   (pd_links pd)
     in (\<lparr> missingMetaDescription =
             flag (\<not> truthyStr (md_description (pd_metadata pd)) \<or> length description = 0),
           missingH1 =
             flag (\<not> truthyStr (hd_h1 (pd_headings pd)) \<or>
                   length (trimOrEmpty (hd_h1 (pd_headings pd))) = 0),
           weakAltText = nonEmptyList weakAltImages,
           placeholderLinks = nonEmptyList placeholderL,
           brokenLinks = nonEmptyList brokenL,
           titleTooLong = flag (length title > 60),
           descriptionTooLong = flag (length description > 165),
           lowReadability =
             flag (case pd_metrics pd of
                     None \<Rightarrow> False
                   | Some m \<Rightarrow> (case cm_readability m of
                                  None \<Rightarrow> False
                                | Some r \<Rightarrow> rd_score r < 60)),
           shortContent = flag (wordCount < 250),
           missingImages = flag (length (pd_images pd) = 0),
           tooManyLinks = flag (length (pd_links pd) > 100),
           noInternalLinks = flag (length (pd_links pd) > 0 \<and> \<not> hasInternalLinks) \<rparr>,
         details))"

subsection \<open>computeSEOScore\<close>

definition computeSEOScore :: "PageData \<Rightarrow> ScanResult" where
  "computeSEOScore pd =
    (let bd = \<lparr> sb_metadata = scoreMetadata (pd_metadata pd),
                sb_content = scoreContent (pd_headings pd) (pd_text pd) (pd_wordCount pd),
                sb_accessibility = scoreAccessibility (pd_images pd),
                sb_links = scoreLinks (pd_links pd) \<rparr>;
         score = mathRound (sb_metadata bd + sb_content bd + sb_accessibility bd + sb_links bd);
         res = identifyIssues pd
     in \<lparr> seoScore = score, breakdown = bd, issues = fst res, pageData = pd,
          brokenLinksDetails = Some (snd res) \<rparr>)"

section \<open>Notions used in the statements\<close>



section \<open>Example inputs\<close>

definition exField :: "string \<Rightarrow> string \<Rightarrow> SemanticCategory \<Rightarrow> FieldInfo" where
  "exField n v c = \<lparr> fi_name = n, fi_value = v, fi_type = ''Single-Line Text'', fi_category = c \<rparr>"

definition exMeta :: "string \<Rightarrow> string \<Rightarrow> ComponentMetadata" where
  "exMeta cid fname =
     \<lparr> componentName = ''Hero'', componentId = cid, datasourceItemId = None,
       fieldName = fname, renderingPlaceholder = None, params = None \<rparr>"

definition exItem :: "string \<Rightarrow> string \<Rightarrow> SemanticCategory \<Rightarrow> SemanticTextItem" where
  "exItem fname t c =
     \<lparr> item_id = ''c1-'' @ fname, item_text = t, item_category = c,
       item_metadata = exMeta ''c1'' fname, item_path = [''Home'', ''Hero''] \<rparr>"

definition exCard :: ComponentNode where
  "exCard = ComponentNode ''c2'' ''Card'' ''Promo'' ''Promo'' None (Some ''main'') None
              [exField ''Text'' ''<p>Hi</p>'' RichText] [] [''Hero'', ''Card'']"

definition exHero :: ComponentNode where
  "exHero = ComponentNode ''c1'' ''Hero'' ''HeroBanner'' ''HeroBanner'' None (Some ''main'') None
              [exField ''Title'' ''Welcome'' Heading] [exCard] [''Hero'']"

definition exPage :: PageContent where
  "exPage = \<lparr> pc_itemId = ''p1'', pc_name = ''Home'', pc_language = ''en'', pc_path = ''/'',
              pc_route = None, pc_components = [exHero] \<rparr>"

definition exData :: PageData where
  "exData =
     \<lparr> pd_metadata = \<lparr> md_title = Some ''Welcome'', md_description = Some [],
                       md_keywords = None, md_canonical = None, md_robots = None \<rparr>,
       pd_headings = \<lparr> hd_h1 = Some ''Welcome'', hd_h2 = Some [], hd_h3 = Some [],
                       hd_all = [''Welcome''] \<rparr>,
       pd_text = [],
       pd_images = [\<lparr> img_id = ''c1-Image'', img_alt = Some ''A logo'', img_src = ''logo.png'',
                      img_componentId = None, img_componentName = None, img_fieldName = None,
                      img_path = None \<rparr>],
       pd_links = [],
       pd_wordCount = Some 125,
       pd_components = None,
       pd_metrics = None \<rparr>"

definition exLinkJson :: json where
  "exLinkJson = JObj [(''value'', JObj [(''href'', JStr ''/about''), (''text'', JStr ''About''),
                                        (''src'', JStr ''x.png'')])]"

definition exTypedJson :: json where
  "exTypedJson = JObj [(''value'', JStr ''hello''), (''type'', JStr ''Image''),
                       (''src'', JStr ''a.png'')]"

section \<open>Properties\<close>

subsection \<open>Breadcrumb paths of the extracted items\<close>

lemma concat_map_nested:
  "concat (map (\<lambda>x. concat (map f (g x))) xs) = concat (map f (concat (map g xs)))"
  by (induction xs) simp_all

lemma itemsOf_pair:
  "itemsOf pn (anc, c) =
     map (\<lambda>field. createSemanticTextItem field (fieldMetadata c field) (breadcrumb pn anc c))
         (cn_fields c)"
  by (simp add: itemsOf_def)

lemma processComponent_nodes:
  "processComponent c (pn # map cn_name anc) = concat (map (itemsOf pn) (nodesWithAncestors anc c))"
proof (induction c arbitrary: anc)
  case (ComponentNode i n cname ty ds ph ps flds children pth)
  let ?c = "ComponentNode i n cname ty ds ph ps flds children pth"
  have kids: "map (\<lambda>child. processComponent child (pn # map cn_name anc @ [n])) children
      = map (\<lambda>child. concat (map (itemsOf pn) (nodesWithAncestors (anc @ [?c]) child))) children"
    using ComponentNode.IH[of _ "anc @ [?c]"] by (intro map_cong) auto
  show ?case
    by (simp add: kids concat_map_nested itemsOf_pair breadcrumb_def Let_def)
qed

lemma extractSemanticItems_nodes:
  "extractSemanticItems pc = concat (map (itemsOf (pc_name pc)) (pageNodes pc))"
proof -
  have "\<And>c. processComponent c [pc_name pc]
          = concat (map (itemsOf (pc_name pc)) (nodesWithAncestors [] c))"
    using processComponent_nodes[of _ "pc_name pc" "[]"] by simp
  then show ?thesis
    by (simp add: extractSemanticItems_def pageNodes_def concat_map_nested)
qed

text \<open>
  Claim C9. Every item produced by \<open>extractSemanticItems\<close> comes from a field of a
  component of the tree, and its breadcrumb path is the page name, then the names of
  that component's ancestors from the outermost one inwards, then the component's own
  name.
\<close>

theorem extractSemanticItems_breadcrumb:
  assumes "item \<in> set (extractSemanticItems pageContent)"
  shows "\<exists>anc component field.
           (anc, component) \<in> set (pageNodes pageContent) \<and>
           field \<in> set (cn_fields component) \<and>
           item = createSemanticTextItem field (fieldMetadata component field)
                    (breadcrumb (pc_name pageContent) anc component) \<and>
           componentId (item_metadata item) = cn_id component \<and>
           item_path item = pc_name pageContent # map cn_name anc @ [cn_name component]"
proof -
  from assms obtain ac where ac: "ac \<in> set (pageNodes pageContent)"
      and it: "item \<in> set (itemsOf (pc_name pageContent) ac)"
    by (auto simp: extractSemanticItems_nodes)
  obtain anc component where [simp]: "ac = (anc, component)" by (cases ac)
  from it obtain field where f: "field \<in> set (cn_fields component)"
      and eq: "item = createSemanticTextItem field (fieldMetadata component field)
                    (breadcrumb (pc_name pageContent) anc component)"
    by (auto simp: itemsOf_def)
  have "componentId (item_metadata item) = cn_id component"
    by (simp add: eq createSemanticTextItem_def fieldMetadata_def Let_def)
  moreover have "item_path item = pc_name pageContent # map cn_name anc @ [cn_name component]"
    by (simp add: eq createSemanticTextItem_def breadcrumb_def Let_def)
  ultimately show ?thesis using ac f eq by auto
qed

theorem extractSemanticItems_breadcrumb_witness:
  "createSemanticTextItem (exField ''Text'' ''<p>Hi</p>'' RichText)
       (fieldMetadata exCard (exField ''Text'' ''<p>Hi</p>'' RichText)) [''Home'', ''Hero'', ''Card'']
     \<in> set (extractSemanticItems exPage)
   \<and> (\<exists>anc component field.
           (anc, component) \<in> set (pageNodes exPage) \<and>
           field \<in> set (cn_fields component) \<and>
           createSemanticTextItem (exField ''Text'' ''<p>Hi</p>'' RichText)
               (fieldMetadata exCard (exField ''Text'' ''<p>Hi</p>'' RichText))
               [''Home'', ''Hero'', ''Card'']
             = createSemanticTextItem field (fieldMetadata component field)
                    (breadcrumb (pc_name exPage) anc component) \<and>
           componentId (item_metadata (createSemanticTextItem (exField ''Text'' ''<p>Hi</p>'' RichText)
               (fieldMetadata exCard (exField ''Text'' ''<p>Hi</p>'' RichText))
               [''Home'', ''Hero'', ''Card''])) = cn_id component \<and>
           item_path (createSemanticTextItem (exField ''Text'' ''<p>Hi</p>'' RichText)
               (fieldMetadata exCard (exField ''Text'' ''<p>Hi</p>'' RichText))
               [''Home'', ''Hero'', ''Card''])
             = pc_name exPage # map cn_name anc @ [cn_name component])"
proof -
  have h: "createSemanticTextItem (exField ''Text'' ''<p>Hi</p>'' RichText)
       (fieldMetadata exCard (exField ''Text'' ''<p>Hi</p>'' RichText)) [''Home'', ''Hero'', ''Card'']
     \<in> set (extractSemanticItems exPage)"
    by (simp add: extractSemanticItems_def exPage_def exHero_def exCard_def Let_def)
  show ?thesis using h extractSemanticItems_breadcrumb[OF h] by blast
qed

subsection \<open>The text of a semantic item\<close>

text \<open>
  Claim C3, as stated, fails where the stripped text is empty: the item then carries
  the field's raw value, here the markup \<open><p></p>\<close>.
\<close>

theorem createSemanticTextItem_text_counterexample:
  "extractPlainText ''<p></p>'' = [] \<and>
   item_text (createSemanticTextItem (exField ''Body'' ''<p></p>'' RichText) (exMeta ''c1'' ''Body'') [])
     \<noteq> extractPlainText ''<p></p>''"
proof -
  have e: "extractPlainText ''<p></p>'' = []" by code_simp
  show ?thesis by (simp add: e createSemanticTextItem_def exField_def)
qed

text \<open>
  Claim C3, amended. The text of the item produced by \<open>createSemanticTextItem\<close> is the
  HTML-stripped plain text of the field's value whenever that plain text is not empty;
  when it is empty, the text is the field's raw value, unchanged.
\<close>

theorem createSemanticTextItem_text:
  "item_text (createSemanticTextItem field meta p) =
     (if extractPlainText (fi_value field) \<noteq> [] then extractPlainText (fi_value field)
      else fi_value field)"
  by (simp add: createSemanticTextItem_def Let_def)

theorem createSemanticTextItem_text_witness:
  "item_text (createSemanticTextItem (exField ''Text'' ''<p>Hi</p>'' RichText) (exMeta ''c2'' ''Text'') [])
     = ''Hi''"
proof -
  have e: "extractPlainText ''<p>Hi</p>'' = ''Hi''" by code_simp
  show ?thesis
    using createSemanticTextItem_text[of "exField ''Text'' ''<p>Hi</p>'' RichText" "exMeta ''c2'' ''Text''" "[]"]
    by (simp add: e exField_def)
qed

subsection \<open>Score ranges\<close>

lemma mathRound_Ints: "mathRound x \<in> \<int>"
  by (simp add: mathRound_def)

lemma mathRound_nonneg: "0 \<le> x \<Longrightarrow> 0 \<le> mathRound x"
  by (simp add: mathRound_def)

lemma mathRound_le: "x \<le> of_int n \<Longrightarrow> mathRound x \<le> of_int n"
  unfolding mathRound_def by (simp add: floor_le_iff)

lemma mathRound_of_int: "mathRound (of_int n) = of_int n"
  unfolding mathRound_def by (simp add: floor_unique)

lemma mathRound_id: "x \<in> \<int> \<Longrightarrow> mathRound x = x"
  by (auto simp: Ints_def mathRound_of_int)

lemma min_Ints: "x \<in> \<int> \<Longrightarrow> y \<in> \<int> \<Longrightarrow> min x y \<in> (\<int> :: rat set)"
  by (simp add: min_def)

lemma len_nonneg: "0 \<le> len xs"
  by (simp add: len_def)

lemma scoreMetadata_range:
  "scoreMetadata m \<in> \<int> \<and> 0 \<le> scoreMetadata m \<and> scoreMetadata m \<le> 25"
proof -
  have i: "scoreMetadata m \<in> \<int>"
    unfolding scoreMetadata_def Let_def by (intro min_Ints mathRound_Ints) simp
  have lo: "0 \<le> scoreMetadata m"
    unfolding scoreMetadata_def Let_def
    by (intro min.boundedI mathRound_nonneg) (auto simp: max_def)
  have hi: "scoreMetadata m \<le> 25"
    unfolding scoreMetadata_def Let_def by simp
  show ?thesis using i lo hi by simp
qed

lemma scoreContent_range:
  "scoreContent h t wc \<in> \<int> \<and> 0 \<le> scoreContent h t wc \<and> scoreContent h t wc \<le> 25"
proof -
  have i: "scoreContent h t wc \<in> \<int>"
    unfolding scoreContent_def Let_def by (intro min_Ints mathRound_Ints) simp
  have lo: "0 \<le> scoreContent h t wc"
    unfolding scoreContent_def Let_def
    by (intro min.boundedI mathRound_nonneg) (auto intro!: add_nonneg_nonneg mathRound_nonneg)
  have hi: "scoreContent h t wc \<le> 25"
    unfolding scoreContent_def Let_def by simp
  show ?thesis using i lo hi by simp
qed

lemma proportion_range:
  assumes "xs \<noteq> []"
  shows "mathRound (len (filter P xs) / len xs * 25) \<in> \<int>"
    "0 \<le> mathRound (len (filter P xs) / len xs * 25)"
    "mathRound (len (filter P xs) / len xs * 25) \<le> 25"
proof -
  have pos: "0 < len xs" using assms by (simp add: len_def)
  have le: "len (filter P xs) \<le> len xs" by (simp add: len_def)
  show "mathRound (len (filter P xs) / len xs * 25) \<in> \<int>" by (rule mathRound_Ints)
  show "0 \<le> mathRound (len (filter P xs) / len xs * 25)"
    using pos by (intro mathRound_nonneg) (simp add: len_nonneg)
  have "len (filter P xs) / len xs \<le> 1" using pos le by simp
  then have "len (filter P xs) / len xs * 25 \<le> 1 * 25" by (rule mult_right_mono) simp
  then have "len (filter P xs) / len xs * 25 \<le> of_int 25" by simp
  from mathRound_le[OF this] show "mathRound (len (filter P xs) / len xs * 25) \<le> 25" by simp
qed

lemma scoreAccessibility_range:
  "scoreAccessibility imgs \<in> \<int> \<and> 0 \<le> scoreAccessibility imgs \<and> scoreAccessibility imgs \<le> 25"
  using proportion_range[of imgs]
  by (cases "imgs = []") (simp_all add: scoreAccessibility_def Let_def)

lemma scoreLinks_range:
  "scoreLinks ls \<in> \<int> \<and> 0 \<le> scoreLinks ls \<and> scoreLinks ls \<le> 25"
  using proportion_range[of ls]
  by (cases "ls = []") (simp_all add: scoreLinks_def Let_def)

text \<open>
  Claim C1. For every page data, each of the four sub-scores of \<open>computeSEOScore\<close> is an
  integer between 0 and 25, and the total is the rounded sum of the four, which is their
  sum, an integer between 0 and 100.
\<close>

theorem computeSEOScore_range:
  "(let r = computeSEOScore pd; b = breakdown r in
      (sb_metadata b \<in> \<int> \<and> 0 \<le> sb_metadata b \<and> sb_metadata b \<le> 25) \<and>
      (sb_content b \<in> \<int> \<and> 0 \<le> sb_content b \<and> sb_content b \<le> 25) \<and>
      (sb_accessibility b \<in> \<int> \<and> 0 \<le> sb_accessibility b \<and> sb_accessibility b \<le> 25) \<and>
      (sb_links b \<in> \<int> \<and> 0 \<le> sb_links b \<and> sb_links b \<le> 25) \<and>
      seoScore r = mathRound (sb_metadata b + sb_content b + sb_accessibility b + sb_links b) \<and>
      seoScore r = sb_metadata b + sb_content b + sb_accessibility b + sb_links b \<and>
      seoScore r \<in> \<int> \<and> 0 \<le> seoScore r \<and> seoScore r \<le> 100)"
proof -
  let ?m = "scoreMetadata (pd_metadata pd)"
  let ?c = "scoreContent (pd_headings pd) (pd_text pd) (pd_wordCount pd)"
  let ?a = "scoreAccessibility (pd_images pd)"
  let ?l = "scoreLinks (pd_links pd)"
  let ?r = "computeSEOScore pd"
  have bd: "sb_metadata (breakdown ?r) = ?m" "sb_content (breakdown ?r) = ?c"
    "sb_accessibility (breakdown ?r) = ?a" "sb_links (breakdown ?r) = ?l"
    by (simp_all add: computeSEOScore_def Let_def)
  have sc: "seoScore ?r = mathRound (?m + ?c + ?a + ?l)"
    by (simp add: computeSEOScore_def Let_def)
  note M = scoreMetadata_range[of "pd_metadata pd"]
  note C = scoreContent_range[of "pd_headings pd" "pd_text pd" "pd_wordCount pd"]
  note A = scoreAccessibility_range[of "pd_images pd"]
  note L = scoreLinks_range[of "pd_links pd"]
  have sumI: "?m + ?c + ?a + ?l \<in> \<int>" using M C A L by (intro Ints_add) simp_all
  have eq: "seoScore ?r = ?m + ?c + ?a + ?l" using sc mathRound_id[OF sumI] by simp
  have tot: "seoScore ?r \<in> \<int> \<and> 0 \<le> seoScore ?r \<and> seoScore ?r \<le> 100"
    using eq sumI M C A L by auto
  show ?thesis
    unfolding Let_def bd using M C A L sc eq tot by simp
qed

theorem computeSEOScore_range_witness:
  "(let r = computeSEOScore exData; b = breakdown r in
      (sb_metadata b \<in> \<int> \<and> 0 \<le> sb_metadata b \<and> sb_metadata b \<le> 25) \<and>
      (sb_content b \<in> \<int> \<and> 0 \<le> sb_content b \<and> sb_content b \<le> 25) \<and>
      (sb_accessibility b \<in> \<int> \<and> 0 \<le> sb_accessibility b \<and> sb_accessibility b \<le> 25) \<and>
      (sb_links b \<in> \<int> \<and> 0 \<le> sb_links b \<and> sb_links b \<le> 25) \<and>
      seoScore r = mathRound (sb_metadata b + sb_content b + sb_accessibility b + sb_links b) \<and>
      seoScore r = sb_metadata b + sb_content b + sb_accessibility b + sb_links b \<and>
      seoScore r \<in> \<int> \<and> 0 \<le> seoScore r \<and> seoScore r \<le> 100) \<and>
   breakdown (computeSEOScore exData)
     = \<lparr> sb_metadata = 10, sb_content = 20, sb_accessibility = 25, sb_links = 25 \<rparr> \<and>
   seoScore (computeSEOScore exData) = 80"
proof -
  have b: "breakdown (computeSEOScore exData)
     = \<lparr> sb_metadata = 10, sb_content = 20, sb_accessibility = 25, sb_links = 25 \<rparr>"
    by code_simp
  have s: "seoScore (computeSEOScore exData) = 80"
    by code_simp
  show ?thesis using computeSEOScore_range[of exData] b s by simp
qed

subsection \<open>Readability\<close>

text \<open>
  Claim C5. The readability score of \<open>calculateReadability\<close> lies between 0 and 100, and
  when there is no word the result is the all-zero one with the grade \<open>N/A\<close>.
\<close>

theorem calculateReadability_range:
  "0 \<le> rd_score (calculateReadability t words sentences) \<and>
   rd_score (calculateReadability t words sentences) \<le> 100 \<and>
   (length words = 0 \<longrightarrow>
      calculateReadability t words sentences =
        \<lparr> rd_score = 0, rd_grade = ''N/A'', rd_sentences = 0, rd_words = 0,
          rd_syllables = 0, rd_averageWordsPerSentence = 0,
          rd_averageSyllablesPerWord = 0 \<rparr>)"
  by (simp add: calculateReadability_def Let_def)

theorem calculateReadability_range_witness:
  "calculateReadability [] [] [] =
        \<lparr> rd_score = 0, rd_grade = ''N/A'', rd_sentences = 0, rd_words = 0,
          rd_syllables = 0, rd_averageWordsPerSentence = 0,
          rd_averageSyllablesPerWord = 0 \<rparr> \<and>
   0 \<le> rd_score (calculateReadability ''The cat sat.'' [''The'', ''cat'', ''sat.''] [''The cat sat'']) \<and>
   rd_score (calculateReadability ''The cat sat.'' [''The'', ''cat'', ''sat.''] [''The cat sat'']) \<le> 100 \<and>
   rd_score (calculateReadability ''The cat sat.'' [''The'', ''cat'', ''sat.''] [''The cat sat'']) = 100"
proof -
  have v: "rd_score (calculateReadability ''The cat sat.'' [''The'', ''cat'', ''sat.''] [''The cat sat'']) = 100"
    by code_simp
  show ?thesis
    using calculateReadability_range[of "[]" "[]" "[]"]
      calculateReadability_range[of "''The cat sat.''" "[''The'', ''cat'', ''sat.'']" "[''The cat sat'']"]
      v
    by simp
qed

subsection \<open>The description in the metadata\<close>

lemma findMeta_None:
  "(findMeta fs = None) = (\<forall>c \<in> set fs. \<not> includesStr (fieldNameLower c) ''meta'')"
  by (auto simp: findMeta_def find_None_iff)

lemma findMeta_Some:
  "findMeta fs = Some m \<Longrightarrow> m \<in> set fs \<and> includesStr (fieldNameLower m) ''meta''"
  by (auto simp: findMeta_def find_Some_iff)

text \<open>
  Claim C4. When there is a description candidate (a Paragraph or RichText item whose
  field name contains \<open>description\<close>, \<open>meta\<close> or \<open>summary\<close>) and no candidate's field name
  contains \<open>meta\<close>, the description is the plain text of the first candidate cut to 165
  characters, so at most 165 characters long; when a candidate's field name contains
  \<open>meta\<close>, the description is the whole trimmed plain text of the first such candidate.
\<close>

theorem extractMetadata_description:
  assumes "descriptionFields items \<noteq> []"
  shows "((\<forall>c \<in> set (descriptionFields items). \<not> includesStr (fieldNameLower c) ''meta'') \<longrightarrow>
            (\<exists>d. md_description (extractMetadata pc items) = Some d \<and> length d \<le> 165 \<and>
                 d = take 165 (trim (extractPlainText (item_text (hd (descriptionFields items))))))) \<and>
         (\<forall>m. findMeta (descriptionFields items) = Some m \<longrightarrow>
            m \<in> set (descriptionFields items) \<and> includesStr (fieldNameLower m) ''meta'' \<and>
            md_description (extractMetadata pc items)
              = Some (trim (extractPlainText (item_text m))))"
proof -
  obtain first rest where df: "descriptionFields items = first # rest"
    using assms by (cases "descriptionFields items") auto
  show ?thesis
  proof (cases "findMeta (descriptionFields items)")
    case None
    then have "md_description (extractMetadata pc items)
        = Some (take 165 (trim (extractPlainText (item_text first))))"
      by (simp add: extractMetadata_def Let_def df)
    then show ?thesis using None by (simp add: df)
  next
    case (Some m0)
    have d: "md_description (extractMetadata pc items)
        = Some (trim (extractPlainText (item_text m0)))"
      using Some by (simp add: extractMetadata_def Let_def df)
    have neg: "\<not> (\<forall>c \<in> set (descriptionFields items). \<not> includesStr (fieldNameLower c) ''meta'')"
      using Some findMeta_None[of "descriptionFields items"] by simp
    have part2: "\<forall>m. findMeta (descriptionFields items) = Some m \<longrightarrow>
            m \<in> set (descriptionFields items) \<and> includesStr (fieldNameLower m) ''meta'' \<and>
            md_description (extractMetadata pc items)
              = Some (trim (extractPlainText (item_text m)))"
      using d Some findMeta_Some[OF Some] by simp
    show ?thesis using neg part2 by (intro conjI impI) (simp_all only: not_False_eq_True)
  qed
qed

theorem extractMetadata_description_witness:
  "md_description (extractMetadata exPage [exItem ''Summary'' ''Hi there'' Paragraph])
     = Some ''Hi there'' \<and>
   md_description (extractMetadata exPage
       [exItem ''Summary'' ''Hi'' Paragraph, exItem ''MetaDescription'' ''About'' RichText])
     = Some ''About''"
proof -
  let ?i1 = "[exItem ''Summary'' ''Hi there'' Paragraph]"
  let ?i2 = "[exItem ''Summary'' ''Hi'' Paragraph, exItem ''MetaDescription'' ''About'' RichText]"
  have d1: "descriptionFields ?i1 = ?i1" by code_simp
  have n1: "findMeta ?i1 = None" by code_simp
  have p1: "take 165 (trim (extractPlainText ''Hi there'')) = ''Hi there''" by code_simp
  have d2: "descriptionFields ?i2 = ?i2" by code_simp
  have n2: "findMeta ?i2 = Some (exItem ''MetaDescription'' ''About'' RichText)" by code_simp
  have p2: "trim (extractPlainText ''About'') = ''About''" by code_simp
  have a1: "descriptionFields ?i1 \<noteq> []" using d1 by simp
  have a2: "descriptionFields ?i2 \<noteq> []" using d2 by simp
  have nm: "\<forall>c \<in> set (descriptionFields ?i1). \<not> includesStr (fieldNameLower c) ''meta''"
    using n1 findMeta_None[of "?i1"] unfolding d1 by blast
  have t1: "item_text (hd (descriptionFields ?i1)) = ''Hi there''"
    by (simp only: d1 list.sel) (simp add: exItem_def)
  from extractMetadata_description[OF a1, of exPage] nm
  obtain d where "md_description (extractMetadata exPage ?i1) = Some d"
    and "d = take 165 (trim (extractPlainText (item_text (hd (descriptionFields ?i1)))))"
    by blast
  then have c1: "md_description (extractMetadata exPage ?i1) = Some ''Hi there''"
    by (simp only: t1 p1)
  have t2: "item_text (exItem ''MetaDescription'' ''About'' RichText) = ''About''"
    by (simp add: exItem_def)
  have m2: "findMeta (descriptionFields ?i2) = Some (exItem ''MetaDescription'' ''About'' RichText)"
    using n2 by (simp only: d2)
  from extractMetadata_description[OF a2, of exPage] m2
  have "md_description (extractMetadata exPage ?i2)
      = Some (trim (extractPlainText (item_text (exItem ''MetaDescription'' ''About'' RichText))))"
    by blast
  then have c2: "md_description (extractMetadata exPage ?i2) = Some ''About''"
    by (simp only: t2 p2)
  show ?thesis using c1 c2 by simp
qed

subsection \<open>Links with an empty href\<close>

lemma trim_Nil: "trim [] = []"
  by (simp add: trim_def)

lemma trim_idem: "trim (trim s) = trim s"
proof -
  define u where "u = dropWhile isWhiteSpace s"
  define v where "v = dropWhile isWhiteSpace (rev u)"
  have t: "trim s = rev v" by (simp add: trim_def u_def v_def)
  have "rev u = takeWhile isWhiteSpace (rev u) @ v" by (simp add: v_def)
  then have "u = rev v @ rev (takeWhile isWhiteSpace (rev u))"
    by (metis rev_append rev_rev_ident)
  then have hd_eq: "rev v \<noteq> [] \<Longrightarrow> hd (rev v) = hd u"
    by (metis hd_append2)
  have "u \<noteq> [] \<Longrightarrow> \<not> isWhiteSpace (hd u)"
    unfolding u_def by (rule hd_dropWhile)
  moreover have "rev v \<noteq> [] \<Longrightarrow> u \<noteq> []" by (auto simp: v_def)
  ultimately have a: "dropWhile isWhiteSpace (rev v) = rev v"
    unfolding dropWhile_eq_self_iff using hd_eq by metis
  have b: "dropWhile isWhiteSpace v = v" by (simp add: v_def)
  show ?thesis by (simp add: t) (simp add: trim_def a b)
qed

lemma group1Trim_fixed: "trim (group1Trim r s) = group1Trim r s"
  by (simp add: group1Trim_def trim_idem trim_Nil split: option.splits)

lemma linkOf_href:
  assumes "linkOf validURL item = Some l"
  shows "\<exists>h. ln_href l = Some h \<and> h \<noteq> [] \<and> trim h = h"
  using assms
  by (auto simp: linkOf_def Let_def linkHref_def group1Trim_fixed split: if_splits)

lemma extractLinks_href:
  assumes "l \<in> set (extractLinks validURL items)"
  shows "\<exists>h. ln_href l = Some h \<and> h \<noteq> [] \<and> trim h = h"
  using assms linkOf_href
  by (auto simp: extractLinks_def List.map_filter_def)

lemma linkDetail_not_empty:
  assumes "ln_href l = Some h" "h \<noteq> []" "trim h = h" "linkDetail l = Some d"
  shows "bl_reason d \<noteq> empty"
  using assms
  by (auto simp: linkDetail_def Let_def truthyStr_def trimOrEmpty_def split: if_splits)

text \<open>
  Claim C10. Every link that \<open>extractLinks\<close> produces has an href that is neither empty
  nor blank, so for page data whose links come from \<open>extractLinks\<close> the loop of
  \<open>identifyIssues\<close> never takes its first branch: no link gets a record with the reason
  \<open>empty\<close>, in \<open>identifyIssues\<close> and in the result of \<open>computeSEOScore\<close>.
\<close>

theorem extractLinks_never_empty_href:
  assumes "pd_links pd = extractLinks validURL items"
  shows "(\<forall>l \<in> set (pd_links pd). \<exists>h. ln_href l = Some h \<and> h \<noteq> [] \<and> trim h \<noteq> []) \<and>
         (\<forall>l \<in> set (pd_links pd). \<forall>d. linkDetail l = Some d \<longrightarrow> bl_reason d \<noteq> empty) \<and>
         (\<forall>d \<in> set (snd (identifyIssues pd)). bl_reason d \<noteq> empty) \<and>
         (\<forall>ds. brokenLinksDetails (computeSEOScore pd) = Some ds \<longrightarrow>
               (\<forall>d \<in> set ds. bl_reason d \<noteq> empty))"
proof -
  have h: "\<And>l. l \<in> set (pd_links pd) \<Longrightarrow> \<exists>h. ln_href l = Some h \<and> h \<noteq> [] \<and> trim h = h"
    using extractLinks_href assms by simp
  have p1: "\<forall>l \<in> set (pd_links pd). \<exists>h. ln_href l = Some h \<and> h \<noteq> [] \<and> trim h \<noteq> []"
    using h by fastforce
  have p2: "\<forall>l \<in> set (pd_links pd). \<forall>d. linkDetail l = Some d \<longrightarrow> bl_reason d \<noteq> empty"
    using h linkDetail_not_empty by blast
  have p3: "\<forall>d \<in> set (snd (identifyIssues pd)). bl_reason d \<noteq> empty"
    using p2 by (auto simp: identifyIssues_def Let_def List.map_filter_def)
  have p4: "\<forall>ds. brokenLinksDetails (computeSEOScore pd) = Some ds \<longrightarrow>
               (\<forall>d \<in> set ds. bl_reason d \<noteq> empty)"
    using p3 by (simp add: computeSEOScore_def Let_def)
  show ?thesis using p1 p2 p3 p4 by blast
qed

theorem extractLinks_never_empty_href_witness:
  "map ln_href (extractLinks (\<lambda>u. True) [exItem ''Link'' ''Go [#]'' Link, exItem ''Link2'' ''nolink'' Link])
     = [Some ''#''] \<and>
   list_all (\<lambda>d. bl_reason d \<noteq> empty)
     (snd (identifyIssues (scanPageContent (\<lambda>u. True) exPage
        [exItem ''Link'' ''Go [#]'' Link, exItem ''Link2'' ''nolink'' Link])))"
proof -
  let ?items = "[exItem ''Link'' ''Go [#]'' Link, exItem ''Link2'' ''nolink'' Link]"
  let ?pd = "scanPageContent (\<lambda>u. True) exPage ?items"
  have h: "pd_links ?pd = extractLinks (\<lambda>u. True) ?items"
    by (simp add: scanPageContent_def Let_def)
  have e: "map ln_href (extractLinks (\<lambda>u. True) ?items) = [Some ''#'']"
    by code_simp
  show ?thesis
    using extractLinks_never_empty_href[OF h] e by (simp add: list_all_iff)
qed

subsection \<open>Heading levels\<close>













subsection \<open>Rich text detected in the content\<close>

lemma keep_nonblank: "c \<in> set s \<Longrightarrow> \<not> P c \<Longrightarrow> c \<in> set (dropWhile P s)"
  by (induction s) auto

lemma trim_nonblank:
  assumes "c \<in> set s" "\<not> isWhiteSpace c"
  shows "trim s \<noteq> []"
proof -
  have "c \<in> set (rev (dropWhile isWhiteSpace s))"
    using keep_nonblank[of c s isWhiteSpace] assms by simp
  then have "c \<in> set (dropWhile isWhiteSpace (rev (dropWhile isWhiteSpace s)))"
    using keep_nonblank[of c "rev (dropWhile isWhiteSpace s)" isWhiteSpace] assms(2) by simp
  then have "dropWhile isWhiteSpace (rev (dropWhile isWhiteSpace s)) \<noteq> []"
    by (metis empty_iff empty_set)
  then show ?thesis unfolding trim_def by (simp only: rev_is_Nil_conv not_False_eq_True)
qed

lemma rx_search_suffix:
  "rx_search r s = Some m \<Longrightarrow> \<exists>pre t. s = pre @ t \<and> rx_first r t = Some m"
proof (induction s)
  case Nil
  then show ?case by simp
next
  case (Cons c cs)
  show ?case
  proof (cases "rx_first r (c # cs)")
    case None
    with Cons.prems have "rx_search r cs = Some m" by simp
    from Cons.IH[OF this] obtain pre t where "cs = pre @ t" "rx_first r t = Some m" by blast
    then have "c # cs = (c # pre) @ t \<and> rx_first r t = Some m" by simp
    then show ?thesis by blast
  next
    case (Some m')
    with Cons.prems have "m' = m" by simp
    with Some have "c # cs = [] @ (c # cs) \<and> rx_first r (c # cs) = Some m" by simp
    then show ?thesis by blast
  qed
qed

lemma run_Seq_chr:
  "run (Seq (chr x) r) st \<noteq> [] \<Longrightarrow> snd st \<noteq> [] \<and> hd (snd st) = x"
  by (cases "snd st") (auto simp: chr_def split: if_splits)

lemma first_char_of_match:
  assumes "\<And>st. run r st \<noteq> [] \<Longrightarrow> snd st \<noteq> [] \<and> hd (snd st) = x"
      and "rx_test r s"
  shows "x \<in> set s"
proof -
  from assms(2) obtain m where "rx_search r s = Some m" by (auto simp: rx_test_def)
  from rx_search_suffix[OF this] obtain pre t where s: "s = pre @ t" and f: "rx_first r t = Some m"
    by blast
  from f have "run r (None, t) \<noteq> []" by (auto simp: rx_first_def split: list.splits)
  from assms(1)[OF this] have "t \<noteq> [] \<and> hd t = x" by simp
  then have "x \<in> set t" by (cases t) auto
  then show ?thesis by (simp add: s)
qed

lemma run_rx_tag:
  "run rx_tag st \<noteq> [] \<Longrightarrow> snd st \<noteq> [] \<and> hd (snd st) = CHR ''<''"
  unfolding rx_tag_def seqs_def foldr.simps o_apply by (rule run_Seq_chr)

lemma run_lit: "run (lit (x # xs)) st \<noteq> [] \<Longrightarrow> snd st \<noteq> [] \<and> hd (snd st) = x"
  unfolding lit_def foldr.simps o_apply by (rule run_Seq_chr)

lemma run_entity:
  assumes "run (alts [lit ''&nbsp;'', lit ''&lt;'', lit ''&gt;'', lit ''&amp;'']) st \<noteq> []"
  shows "snd st \<noteq> [] \<and> hd (snd st) = CHR ''&''"
proof -
  from assms have "run (lit ''&nbsp;'') st \<noteq> [] \<or> run (lit ''&lt;'') st \<noteq> [] \<or>
      run (lit ''&gt;'') st \<noteq> [] \<or> run (lit ''&amp;'') st \<noteq> []"
    by (auto simp: alts_def)
  then show ?thesis using run_lit by blast
qed

lemma richtext_marker_nonblank:
  assumes "matchesAny (CONTENT_PATTERNS RichText) s"
  shows "trim s \<noteq> []"
proof -
  from assms have "rx_test rx_tag s \<or>
      rx_test (alts [lit ''&nbsp;'', lit ''&lt;'', lit ''&gt;'', lit ''&amp;'']) s"
    by (auto simp: matchesAny_def test_def rx_entity_def)
  then have "CHR ''<'' \<in> set s \<or> CHR ''&'' \<in> set s"
    using first_char_of_match[of rx_tag "CHR ''<''" s, OF run_rx_tag]
      first_char_of_match[of "alts [lit ''&nbsp;'', lit ''&lt;'', lit ''&gt;'', lit ''&amp;'']"
        "CHR ''&''" s, OF run_entity]
    by blast
  moreover have "\<not> isWhiteSpace CHR ''<''" "\<not> isWhiteSpace CHR ''&''"
    by (simp_all add: isWhiteSpace_def whiteSpaceChars_def)
  ultimately show ?thesis using trim_nonblank by blast
qed

lemma classifyContent_RichText:
  assumes "matchesAny (CONTENT_PATTERNS RichText) v"
      and "\<not> matchesAny (CONTENT_PATTERNS Button) v"
      and "\<not> matchesAny (CONTENT_PATTERNS Heading) v"
  shows "classifyContent v = Some RichText"
proof -
  have nb: "trim v \<noteq> []" using richtext_marker_nonblank[OF assms(1)] .
  then have ne: "v \<noteq> []" by (auto simp: trim_def)
  have "List.find (\<lambda>category. category \<noteq> Other \<and> category \<noteq> Paragraph \<and>
                                  category \<noteq> Label \<and> category \<noteq> Button \<and>
                                  matchesAny (CONTENT_PATTERNS category) v)
                     CONTENT_PATTERNS_keys = Some RichText"
    using assms(1,3) by (simp add: CONTENT_PATTERNS_keys_def)
  then show ?thesis using nb ne assms(2) by (simp add: classifyContent_def)
qed

text \<open>
  Claim C6, as stated, fails: a value that is one heading element, \<open><h2>About us</h2>\<close>,
  contains an HTML tag, but the content tier reports Heading for it, not RichText, and
  the field keeps the category of its name.
\<close>

theorem classifyField_RichText_counterexample:
  "classifyFieldName ''Description'' = Paragraph \<and>
   matchesAny (CONTENT_PATTERNS RichText) ''<h2>About us</h2>'' \<and>
   classifyContent ''<h2>About us</h2>'' = Some Heading \<and>
   classifyField ''Description'' ''<h2>About us</h2>'' None None = Category Paragraph"
  by code_simp

text \<open>
  Claim C6, amended. For a field where no template-table entry matches, the declared
  type neither is a category name nor maps to a category other than Other, the name
  tier gives a category other than Other, Link and Button, and the value matches a
  RichText content marker but neither the call-to-action expression of the Button
  tier nor the single-heading-element expression of the Heading tier, the content tier
  reports RichText and \<open>classifyField\<close> returns RichText.
\<close>

theorem classifyField_RichText_override:
  assumes "\<not> truthyStr templateName \<or> recordLookup TEMPLATE_PATTERNS (the templateName) = Absent"
      and "\<not> truthyStr fieldType \<or>
           (map_of semanticCategories (the fieldType) = None \<and>
            mapFieldTypeToCategory (the fieldType) = Category Other)"
      and "classifyFieldName fname \<noteq> Other" "classifyFieldName fname \<noteq> Link"
          "classifyFieldName fname \<noteq> Button"
      and "matchesAny (CONTENT_PATTERNS RichText) fieldValue"
      and "\<not> matchesAny (CONTENT_PATTERNS Button) fieldValue"
      and "\<not> matchesAny (CONTENT_PATTERNS Heading) fieldValue"
  shows "classifyContent fieldValue = Some RichText \<and>
         classifyField fname fieldValue fieldType templateName = Category RichText"
proof -
  have c: "classifyContent fieldValue = Some RichText"
    using assms(6,7,8) by (rule classifyContent_RichText)
  have n: "classifyByNameAndContent fname fieldValue = RichText"
    using assms(3,4,5) c by (simp add: classifyByNameAndContent_def Let_def)
  have "classifyField fname fieldValue fieldType templateName = Category RichText"
    using assms(1,2) n by (auto simp: classifyField_def)
  with c show ?thesis by simp
qed

theorem classifyField_RichText_override_witness:
  "classifyContent ''<p>Hi</p>'' = Some RichText \<and>
   classifyField ''Description'' ''<p>Hi</p>'' (Some ''text'') (Some ''Hero'') = Category RichText"
proof -
  have t: "\<not> truthyStr (Some ''Hero'') \<or> recordLookup TEMPLATE_PATTERNS (the (Some ''Hero'')) = Absent"
    by code_simp
  have ty: "\<not> truthyStr (Some ''text'') \<or>
           (map_of semanticCategories (the (Some ''text'')) = None \<and>
            mapFieldTypeToCategory (the (Some ''text'')) = Category Other)"
    by code_simp
  have n: "classifyFieldName ''Description'' = Paragraph" by code_simp
  have n1: "classifyFieldName ''Description'' \<noteq> Other" 
    and n2: "classifyFieldName ''Description'' \<noteq> Link"
    and n3: "classifyFieldName ''Description'' \<noteq> Button"
    by (simp_all add: n)
  have m: "matchesAny (CONTENT_PATTERNS RichText) ''<p>Hi</p>''" by code_simp
  have b: "\<not> matchesAny (CONTENT_PATTERNS Button) ''<p>Hi</p>''" by code_simp
  have h: "\<not> matchesAny (CONTENT_PATTERNS Heading) ''<p>Hi</p>''" by code_simp
  show ?thesis
    using classifyField_RichText_override[OF t ty n1 n2 n3 m b h] .
qed

subsection \<open>Fields named like a link\<close>

lemma newField_cases:
  "newField name v ty = Field \<lparr> fi_name = name, fi_value = v, fi_type = ty,
                                fi_category = (case classifyField name v (Some ty) None of
                                                 Category c \<Rightarrow> c | NotACategory \<Rightarrow> Other) \<rparr>
   \<or> newField name v ty = FieldNoCategory name v ty"
  by (simp add: newField_def split: classified.splits)

lemma newField_Field: "newField name v ty = Field f \<Longrightarrow> fi_type f = ty"
  using newField_cases[of name v ty] by auto

lemma newField_NoCategory: "newField name v ty = FieldNoCategory n fv ft \<Longrightarrow> ft = ty"
  using newField_cases[of name v ty] by auto

lemma newField_other:
  "newField name v ty \<noteq> Null" "newField name v ty \<noteq> Throws"
  "newField name v ty \<noteq> FieldNoType n fv ft"
  using newField_cases[of name v ty] by auto

lemma linkBranch_result:
  assumes "linkBranch toStr name p av = Some r"
  shows "r = Throws \<or> (\<exists>fv. r = newField name fv ''Link'')"
  using assms by (auto simp: linkBranch_def Let_def split: if_splits)

lemma objectBranches_link_name:
  assumes "isLinkFieldByName name"
  shows "objectBranches stringify toStr name jv av =
           (case av of
              JStr sv \<Rightarrow> Parsed StringBranch sv (orElse (getProp jv ''type'') (JStr ''Rich Text''))
            | _ \<Rightarrow> Parsed JsonBranch (stringify av) (JStr ''JSON''))"
  using assms by (simp add: objectBranches_def Let_def)

lemma valueBranch_result:
  "\<exists>fv. valueBranch v = Parsed ValueBranch fv (JStr ''Link'') \<or>
        valueBranch v = Parsed ValueBranch fv (JStr ''Single-Line Text'')"
  by (auto simp: valueBranch_def Let_def split: option.splits)

lemma orElse_type_Image:
  "orElse t (JStr ''Rich Text'') = JStr ''Image'' \<Longrightarrow> t = JStr ''Image''"
  by (auto simp: orElse_def split: if_splits)

lemma parseField_link_name:
  assumes "isLinkFieldByName name"
      and "parseField stringify toStr name v jv = Parsed b fv ft"
  shows "b \<noteq> ImageBranch \<and>
         (ft = JStr ''Image'' \<longrightarrow>
            b = StringBranch \<and> getProp jv ''type'' = JStr ''Image'' \<and>
            orElse (getProp jv ''value'') jv = JStr fv)"
proof (cases "truthy jv \<and> isObject jv")
  case True
  let ?av = "orElse (getProp jv ''value'') jv"
  from assms(2) True
  have ob: "objectBranches stringify toStr name jv ?av = Parsed b fv ft"
    by (auto simp: parseField_def Let_def split: if_splits option.splits)
  then show ?thesis
    unfolding objectBranches_link_name[OF assms(1)]
    by (cases ?av) (auto dest: orElse_type_Image)
next
  case False
  from assms(2) False
  have "valueBranch v = Parsed b fv ft \<or> (b = NoBranch \<and> ft = JStr ''unknown'')"
    by (auto simp: parseField_def Let_def split: if_splits)
  then show ?thesis using valueBranch_result[of v] by auto
qed

lemma parseField_Done:
  assumes "parseField stringify toStr name v jv = Done r"
  shows "r = Null \<or> r = Throws \<or> (\<exists>fv. r = newField name fv ''Link'')"
proof -
  have vb: "valueBranch v \<noteq> Done r" using valueBranch_result[of v] by auto
  from assms show ?thesis
    using linkBranch_result[of toStr name _ "orElse (getProp jv ''value'') jv"] vb
    by (auto simp: parseField_def Let_def objectBranches_def
             split: if_splits option.splits json.splits)
qed

lemma finishField_result:
  "finishField name fv ft = Null \<or>
   (\<exists>fv' ty. ft = JStr ty \<and> finishField name fv ft = newField name fv' ty) \<or>
   (\<exists>fv'. (\<forall>ty. ft \<noteq> JStr ty) \<and> finishField name fv ft = FieldNoType name fv' ft)"
  by (cases ft) (auto simp: finishField_def Let_def)

text \<open>
  Claim C7, as stated, fails: a field named \<open>Link1\<close> whose \<open>jsonValue\<close> holds a string
  value and declares the type \<open>Image\<close> itself (and exposes a \<open>src\<close> property) is
  returned with the type \<open>Image\<close>; it has not gone through the image branch, the type
  is the declared one, copied by the branch for string values.
\<close>

theorem link_named_field_counterexample:
  "isLinkFieldByName ''Link1'' \<and>
   convertDatasourceFieldToComponentField (\<lambda>j. []) (\<lambda>j. []) ''Link1'' [] exTypedJson
     = Field \<lparr> fi_name = ''Link1'', fi_value = ''hello'', fi_type = ''Image'',
               fi_category = Image \<rparr>"
  by code_simp

text \<open>
  Claim C7, amended. A datasource field whose name is link-like is never parsed
  through the image branch, also when its \<open>jsonValue\<close> exposes a \<open>src\<close> property; and
  what is returned for it has the type \<open>Image\<close> only when the \<open>jsonValue\<close> holds a string
  value and itself declares the type \<open>Image\<close>, which the branch for string values
  copies.
\<close>

theorem link_named_field_never_image_branch:
  assumes "isLinkFieldByName name"
  shows "(\<forall>fv ft. parseField stringify toStr name v jsonValue \<noteq> Parsed ImageBranch fv ft) \<and>
         (\<forall>f. convertDatasourceFieldToComponentField stringify toStr name v jsonValue = Field f \<and>
               fi_type f = ''Image'' \<longrightarrow>
               getProp jsonValue ''type'' = JStr ''Image'' \<and>
               (\<exists>sv. orElse (getProp jsonValue ''value'') jsonValue = JStr sv)) \<and>
         (\<forall>n fv. convertDatasourceFieldToComponentField stringify toStr name v jsonValue
                  = FieldNoCategory n fv ''Image'' \<longrightarrow>
               getProp jsonValue ''type'' = JStr ''Image'')"
proof -
  have p1: "\<forall>fv ft. parseField stringify toStr name v jsonValue \<noteq> Parsed ImageBranch fv ft"
    using parseField_link_name[OF assms, of stringify toStr v jsonValue ImageBranch] by auto
  have p2: "\<forall>f. convertDatasourceFieldToComponentField stringify toStr name v jsonValue = Field f \<and>
               fi_type f = ''Image'' \<longrightarrow>
               getProp jsonValue ''type'' = JStr ''Image'' \<and>
               (\<exists>sv. orElse (getProp jsonValue ''value'') jsonValue = JStr sv)"
  proof (intro allI impI)
    fix f
    assume a: "convertDatasourceFieldToComponentField stringify toStr name v jsonValue = Field f \<and>
               fi_type f = ''Image''"
    show "getProp jsonValue ''type'' = JStr ''Image'' \<and>
          (\<exists>sv. orElse (getProp jsonValue ''value'') jsonValue = JStr sv)"
    proof (cases "parseField stringify toStr name v jsonValue")
      case (Done r)
      with a have "r = Field f" by (simp add: convertDatasourceFieldToComponentField_def)
      with parseField_Done[OF Done] obtain fv where "newField name fv ''Link'' = Field f" by auto
      from newField_Field[OF this] a show ?thesis by simp
    next
      case (Parsed b fv ft)
      with a have fin: "finishField name fv ft = Field f"
        by (simp add: convertDatasourceFieldToComponentField_def)
      from finishField_result[of name fv ft] fin
      obtain fv' ty where "ft = JStr ty" "newField name fv' ty = Field f" by auto
      with newField_Field[of name fv' ty f] a have "ft = JStr ''Image''" by simp
      with parseField_link_name[OF assms Parsed] show ?thesis by auto
    qed
  qed
  have p3: "\<forall>n fv. convertDatasourceFieldToComponentField stringify toStr name v jsonValue
                  = FieldNoCategory n fv ''Image'' \<longrightarrow>
               getProp jsonValue ''type'' = JStr ''Image''"
  proof (intro allI impI)
    fix n fv0
    assume a: "convertDatasourceFieldToComponentField stringify toStr name v jsonValue
                 = FieldNoCategory n fv0 ''Image''"
    show "getProp jsonValue ''type'' = JStr ''Image''"
    proof (cases "parseField stringify toStr name v jsonValue")
      case (Done r)
      with a have "r = FieldNoCategory n fv0 ''Image''"
        by (simp add: convertDatasourceFieldToComponentField_def)
      with parseField_Done[OF Done] obtain fv where
        "newField name fv ''Link'' = FieldNoCategory n fv0 ''Image''" by auto
      from newField_NoCategory[OF this] show ?thesis by simp
    next
      case (Parsed b fv ft)
      with a have fin: "finishField name fv ft = FieldNoCategory n fv0 ''Image''"
        by (simp add: convertDatasourceFieldToComponentField_def)
      from finishField_result[of name fv ft] fin
      obtain fv' ty where "ft = JStr ty" "newField name fv' ty = FieldNoCategory n fv0 ''Image''"
        by auto
      with newField_NoCategory[of name fv' ty n fv0 "''Image''"] have "ft = JStr ''Image''" by simp
      with parseField_link_name[OF assms Parsed] show ?thesis by auto
    qed
  qed
  show ?thesis using p1 p2 p3 by (intro conjI)
qed

theorem link_named_field_never_image_branch_witness:
  "isLinkFieldByName ''Link1'' \<and>
   parseField (\<lambda>j. []) (\<lambda>j. []) ''Link1'' [] exLinkJson
     \<noteq> Parsed ImageBranch ''Src: x.png'' (JStr ''Image'') \<and>
   convertDatasourceFieldToComponentField (\<lambda>j. []) (\<lambda>j. []) ''Link1'' [] exLinkJson
     = Field \<lparr> fi_name = ''Link1'', fi_value = ''About [/about]'', fi_type = ''Link'',
               fi_category = Link \<rparr>"
proof -
  have h: "isLinkFieldByName ''Link1''" by code_simp
  have c: "convertDatasourceFieldToComponentField (\<lambda>j. []) (\<lambda>j. []) ''Link1'' [] exLinkJson
     = Field \<lparr> fi_name = ''Link1'', fi_value = ''About [/about]'', fi_type = ''Link'',
               fi_category = Link \<rparr>"
    by code_simp
  show ?thesis
    using h c link_named_field_never_image_branch[OF h, of "\<lambda>j. []" "\<lambda>j. []" "[]" exLinkJson]
    by blast
qed

end
